theory Spec2Isabelle
  imports Complex_Main "HOL-Library.Sublist" "HOL-Library.Log_Nat"
begin

section \<open>JavaScript values used by the application\<close>

text \<open>
  A JavaScript string is a sequence of UTF-16 code units. The model uses \<^typ>\<open>string\<close>
  and reads each \<^typ>\<open>char\<close> as one code unit below 256 (the Latin-1 range), so that
  \<open>length\<close> is the \<open>.length\<close> of the source. Code units above 255 are outside the model.
\<close>

definition str_includes :: "string \<Rightarrow> string \<Rightarrow> bool" where
  \<comment> \<open>\<open>s.includes(t)\<close>: \<open>t\<close> occurs in \<open>s\<close> as a contiguous run.\<close>
  "str_includes s t = sublist t s"

definition toLowerCase_unit :: "char \<Rightarrow> char" where
  \<comment> \<open>A-Z and the Latin-1 capitals (all of 0xC0-0xDE but the multiplication sign) move up by 0x20.\<close>
  "toLowerCase_unit c =
     (let n = (of_char c :: nat)
      in if (65 \<le> n \<and> n \<le> 90) \<or> (192 \<le> n \<and> n \<le> 222 \<and> n \<noteq> 215)
         then char_of (n + 32) else c)"

definition toLowerCase :: "string \<Rightarrow> string" where
  "toLowerCase s = map toLowerCase_unit s"

definition isWhiteSpace :: "char \<Rightarrow> bool" where
  \<comment> \<open>What \<open>trim\<close> strips, below 256: tab, LF, VT, FF, CR, space and the no-break space.\<close>
  "isWhiteSpace c = ((of_char c :: nat) \<in> {9, 10, 11, 12, 13, 32, 160})"

definition trim :: "string \<Rightarrow> string" where
  "trim s = rev (dropWhile isWhiteSpace (rev (dropWhile isWhiteSpace s)))"

fun show_nat :: "nat \<Rightarrow> string" where
  \<comment> \<open>The decimal digits a template literal \<open>${n}\<close> prints for a non-negative integer.\<close>
  "show_nat n =
     (if n < 10 then [''0123456789'' ! n]
      else show_nat (n div 10) @ [''0123456789'' ! (n mod 10)])"

declare show_nat.simps [simp del]

section \<open>Validation constants (lib/types.ts)\<close>

record validation_rules =
  jobTitle_minLength :: nat
  jobTitle_maxLength :: nat
  yearsExperience_min :: nat
  yearsExperience_max :: nat
  remoteRatio_min :: nat
  remoteRatio_max :: nat
  remoteRatio_step :: nat
  requiredSkills_maxItems :: nat
  requiredSkills_maxLength :: nat
  benefits_maxItems :: nat
  benefits_maxLength :: nat
  jobDescription_maxLength :: nat

definition VALIDATION_RULES :: validation_rules where
  "VALIDATION_RULES =
     \<lparr>jobTitle_minLength = 2, jobTitle_maxLength = 200,
      yearsExperience_min = 0, yearsExperience_max = 50,
      remoteRatio_min = 0, remoteRatio_max = 100, remoteRatio_step = 10,
      requiredSkills_maxItems = 20, requiredSkills_maxLength = 100,
      benefits_maxItems = 15, benefits_maxLength = 100,
      jobDescription_maxLength = 10000\<rparr>"

section \<open>Input normalizer (PredictionForm)\<close>

datatype experienceLevel = Entry_Level | Mid_Level | Senior_Level | Executive

text \<open>
  \<open>yearsExperience\<close> is always stored as \<open>parseInt(e.target.value) || 0\<close>, an integer.
\<close>

definition getExperienceLevelFromYears :: "int \<Rightarrow> experienceLevel" where
  "getExperienceLevelFromYears years =
     (if years \<le> 2 then Entry_Level
      else if years \<le> 5 then Mid_Level
      else if years \<le> 10 then Senior_Level
      else Executive)"

record skills =
  core :: "string list"
  advanced :: "string list"
  tools :: "string list"

text \<open>
  \<open>ROLE_SKILL_MAPPING\<close> is an object literal with ten string keys; \<open>Object.entries\<close> lists
  them in the order they are written, so the object is an association list in that order.
  Each value has a name of its own, since the fallback cascade reads single entries
  (\<open>ROLE_SKILL_MAPPING['data scientist']\<close> and so on).
\<close>

definition data_scientist :: skills where
  "data_scientist =
     \<lparr>core = [''Python'', ''Machine Learning'', ''Statistics'', ''SQL'', ''Pandas'', ''NumPy''],
      advanced = [''TensorFlow'', ''PyTorch'', ''Scikit-learn'', ''Deep Learning'', ''R''],
      tools = [''Jupyter'', ''Git'', ''Docker'', ''AWS'']\<rparr>"

definition ml_engineer :: skills where
  "ml_engineer =
     \<lparr>core = [''Python'', ''Machine Learning'', ''TensorFlow'', ''PyTorch'', ''Docker''],
      advanced = [''Kubernetes'', ''MLOps'', ''Deep Learning'', ''Model Deployment''],
      tools = [''Git'', ''AWS'', ''Azure'', ''GCP'', ''Spark'']\<rparr>"

definition data_engineer :: skills where
  "data_engineer =
     \<lparr>core = [''Python'', ''SQL'', ''Spark'', ''Hadoop'', ''ETL''],
      advanced = [''Kafka'', ''Airflow'', ''Snowflake'', ''BigQuery''],
      tools = [''Docker'', ''Kubernetes'', ''AWS'', ''Git'', ''MongoDB'']\<rparr>"

definition data_analyst :: skills where
  "data_analyst =
     \<lparr>core = [''SQL'', ''Python'', ''Excel'', ''Statistics'', ''Data Visualization''],
      advanced = [''Tableau'', ''Power BI'', ''R'', ''Pandas''],
      tools = [''Git'', ''Jupyter'', ''Google Analytics'']\<rparr>"

definition ai_researcher :: skills where
  "ai_researcher =
     \<lparr>core = [''Python'', ''Deep Learning'', ''TensorFlow'', ''PyTorch'', ''Research''],
      advanced = [''NLP'', ''Computer Vision'', ''Reinforcement Learning'', ''GANs''],
      tools = [''Git'', ''Jupyter'', ''LaTeX'', ''Docker'']\<rparr>"

definition software_engineer :: skills where
  "software_engineer =
     \<lparr>core = [''Python'', ''Git'', ''Algorithms'', ''Data Structures''],
      advanced = [''System Design'', ''Microservices'', ''APIs'', ''Testing''],
      tools = [''Docker'', ''Kubernetes'', ''AWS'', ''CI/CD'']\<rparr>"

definition product_manager :: skills where
  "product_manager =
     \<lparr>core = [''Product Strategy'', ''Analytics'', ''A/B Testing'', ''User Research''],
      advanced = [''SQL'', ''Data Analysis'', ''Market Research'', ''Roadmapping''],
      tools = [''JIRA'', ''Figma'', ''Google Analytics'', ''Mixpanel'']\<rparr>"

definition devops_engineer :: skills where
  "devops_engineer =
     \<lparr>core = [''Docker'', ''Kubernetes'', ''AWS'', ''CI/CD'', ''Linux''],
      advanced = [''Terraform'', ''Ansible'', ''Monitoring'', ''Security''],
      tools = [''Git'', ''Jenkins'', ''Prometheus'', ''Grafana'']\<rparr>"

definition backend_engineer :: skills where
  "backend_engineer =
     \<lparr>core = [''Python'', ''APIs'', ''Databases'', ''System Design''],
      advanced = [''Microservices'', ''Caching'', ''Message Queues'', ''Security''],
      tools = [''Docker'', ''Git'', ''PostgreSQL'', ''Redis'']\<rparr>"

definition frontend_engineer :: skills where
  "frontend_engineer =
     \<lparr>core = [''JavaScript'', ''React'', ''HTML'', ''CSS'', ''TypeScript''],
      advanced = [''Next.js'', ''Vue.js'', ''State Management'', ''Testing''],
      tools = [''Git'', ''Webpack'', ''npm'', ''Figma'']\<rparr>"

definition ROLE_SKILL_MAPPING :: "(string \<times> skills) list" where
  "ROLE_SKILL_MAPPING =
     [(''data scientist'', data_scientist),
      (''ml engineer'', ml_engineer),
      (''data engineer'', data_engineer),
      (''data analyst'', data_analyst),
      (''ai researcher'', ai_researcher),
      (''software engineer'', software_engineer),
      (''product manager'', product_manager),
      (''devops engineer'', devops_engineer),
      (''backend engineer'', backend_engineer),
      (''frontend engineer'', frontend_engineer)]"

definition no_skills :: skills where
  "no_skills = \<lparr>core = [], advanced = [], tools = []\<rparr>"

fun first_role_match :: "string \<Rightarrow> (string \<times> skills) list \<Rightarrow> skills option" where
  \<comment> \<open>The \<open>for ... of Object.entries(ROLE_SKILL_MAPPING)\<close> loop: \<open>Some\<close> is its early return.\<close>
  "first_role_match titleLower [] = None"
| "first_role_match titleLower ((role, sk) # rest) =
     (if str_includes titleLower role then Some sk else first_role_match titleLower rest)"

definition partial_matches :: "string \<Rightarrow> skills" where
  \<comment> \<open>The \<open>if ... else if\<close> chain under "Check for partial matches", with its final
      fall-through to three empty arrays.\<close>
  "partial_matches titleLower =
     (if str_includes titleLower ''scientist'' then data_scientist
      else if str_includes titleLower ''engineer'' \<and> str_includes titleLower ''ml''
      then ml_engineer
      else if str_includes titleLower ''engineer'' \<and>
              (str_includes titleLower ''data'' \<or> str_includes titleLower ''etl'')
      then data_engineer
      else if str_includes titleLower ''analyst'' then data_analyst
      else if str_includes titleLower ''research'' then ai_researcher
      else if str_includes titleLower ''devops'' \<or> str_includes titleLower ''sre''
      then devops_engineer
      else if str_includes titleLower ''product'' then product_manager
      else if str_includes titleLower ''backend'' then backend_engineer
      else if str_includes titleLower ''frontend'' \<or> str_includes titleLower ''react'' \<or>
              str_includes titleLower ''ui''
      then frontend_engineer
      else if str_includes titleLower ''engineer'' then software_engineer
      else no_skills)"

definition getRecommendedSkills :: "string \<Rightarrow> skills" where
  "getRecommendedSkills jobTitle =
     (if jobTitle = [] then no_skills
      else
        let titleLower = toLowerCase jobTitle
        in case first_role_match titleLower ROLE_SKILL_MAPPING of
             Some sk \<Rightarrow> sk
           | None \<Rightarrow> partial_matches titleLower)"

text \<open>
  The recommender as the specification words it: two ordered tables of (test, result)
  pairs, the role keys first and the heuristic cascade second, the first passing test of
  the first table that has one deciding the result, three empty sequences otherwise.
\<close>

definition heuristic_cascade :: "((string \<Rightarrow> bool) \<times> skills) list" where
  "heuristic_cascade =
     [(\<lambda>t. str_includes t ''scientist'', data_scientist),
      (\<lambda>t. str_includes t ''engineer'' \<and> str_includes t ''ml'', ml_engineer),
      (\<lambda>t. str_includes t ''engineer'' \<and> (str_includes t ''data'' \<or> str_includes t ''etl''),
         data_engineer),
      (\<lambda>t. str_includes t ''analyst'', data_analyst),
      (\<lambda>t. str_includes t ''research'', ai_researcher),
      (\<lambda>t. str_includes t ''devops'' \<or> str_includes t ''sre'', devops_engineer),
      (\<lambda>t. str_includes t ''product'', product_manager),
      (\<lambda>t. str_includes t ''backend'', backend_engineer),
      (\<lambda>t. str_includes t ''frontend'' \<or> str_includes t ''react'' \<or> str_includes t ''ui'',
         frontend_engineer),
      (\<lambda>t. str_includes t ''engineer'', software_engineer)]"

definition first_match_spec :: "string \<Rightarrow> skills" where
  "first_match_spec jobTitle =
     (let t = toLowerCase jobTitle
      in case find (\<lambda>(role, sk). str_includes t role) ROLE_SKILL_MAPPING of
           Some (role, sk) \<Rightarrow> sk
         | None \<Rightarrow>
             (case find (\<lambda>(test, sk). test t) heuristic_cascade of
                Some (test, sk) \<Rightarrow> sk
              | None \<Rightarrow> no_skills))"

section \<open>The prediction form and its state\<close>

record form_data =
  jobTitle :: string
  yearsExperience :: int
  companyLocation :: string
  companySize :: string
  remoteRatio :: int
  requiredSkills :: "string list"
  benefits :: "string list"
  jobDescription :: string

text \<open>
  The \<open>useState\<close> cells of \<open>PredictionForm\<close>. \<open>errors\<close> is an object used as a
  dictionary; it is kept as an association list in insertion order, so that
  \<open>Object.keys(errors)\<close> is \<open>map fst\<close> of it.
\<close>

record form_state =
  formData :: form_data
  selectedSkills :: "string list"
  selectedBenefits :: "string list"
  customSkill :: string
  customBenefit :: string
  errors :: "(string \<times> string) list"

definition initial_form_state :: form_state where
  "initial_form_state =
     \<lparr>formData = \<lparr>jobTitle = [], yearsExperience = 0, companyLocation = ''United States'',
                   companySize = ''Medium'', remoteRatio = 0, requiredSkills = [],
                   benefits = [], jobDescription = []\<rparr>,
      selectedSkills = [], selectedBenefits = [], customSkill = [], customBenefit = [],
      errors = []\<rparr>"

text \<open>
  \<open>validateForm\<close> fills a fresh \<open>newErrors\<close> object in five commented blocks, one per
  field, each assigning at most one key; the blocks are named here after their comments.
\<close>

definition job_title_validation :: "form_state \<Rightarrow> (string \<times> string) list" where
  "job_title_validation st =
     (let title = jobTitle (formData st)
      in if trim title = [] then [(''jobTitle'', ''Job title is required'')]
         else if length title < jobTitle_minLength VALIDATION_RULES
         then [(''jobTitle'', ''Job title must be at least '' @
                 show_nat (jobTitle_minLength VALIDATION_RULES) @ '' characters'')]
         else if length title > jobTitle_maxLength VALIDATION_RULES
         then [(''jobTitle'', ''Job title cannot exceed '' @
                 show_nat (jobTitle_maxLength VALIDATION_RULES) @ '' characters'')]
         else [])"

definition years_experience_validation :: "form_state \<Rightarrow> (string \<times> string) list" where
  "years_experience_validation st =
     (let years = yearsExperience (formData st)
      in if years < int (yearsExperience_min VALIDATION_RULES)
         then [(''yearsExperience'', ''Years of experience cannot be negative'')]
         else if years > int (yearsExperience_max VALIDATION_RULES)
         then [(''yearsExperience'', ''Years of experience cannot exceed '' @
                 show_nat (yearsExperience_max VALIDATION_RULES))]
         else [])"

definition skills_validation :: "form_state \<Rightarrow> (string \<times> string) list" where
  "skills_validation st =
     (if length (selectedSkills st) > requiredSkills_maxItems VALIDATION_RULES
      then [(''requiredSkills'', ''Cannot select more than '' @
              show_nat (requiredSkills_maxItems VALIDATION_RULES) @ '' skills'')]
      else [])"

definition benefits_validation :: "form_state \<Rightarrow> (string \<times> string) list" where
  "benefits_validation st =
     (if length (selectedBenefits st) > benefits_maxItems VALIDATION_RULES
      then [(''benefits'', ''Cannot select more than '' @
              show_nat (benefits_maxItems VALIDATION_RULES) @ '' benefits'')]
      else [])"

definition job_description_validation :: "form_state \<Rightarrow> (string \<times> string) list" where
  "job_description_validation st =
     (let description = jobDescription (formData st)
      in if description \<noteq> [] \<and>
            length description > jobDescription_maxLength VALIDATION_RULES
         then [(''jobDescription'', ''Job description cannot exceed '' @
                 show_nat (jobDescription_maxLength VALIDATION_RULES) @ '' characters'')]
         else [])"

definition validateForm :: "form_state \<Rightarrow> form_state \<times> bool" where
  \<comment> \<open>The state after \<open>setErrors(newErrors)\<close>, and the returned
      \<open>Object.keys(newErrors).length === 0\<close>.\<close>
  "validateForm st =
     (let newErrors = job_title_validation st @ years_experience_validation st @
                      skills_validation st @ benefits_validation st @
                      job_description_validation st
      in (st\<lparr>errors := newErrors\<rparr>, length (map fst newErrors) = 0))"

definition error_keys :: "form_state \<Rightarrow> string set" where
  \<comment> \<open>The keys of the mapping \<open>validateForm\<close> stores for a draft.\<close>
  "error_keys st = set (map fst (errors (fst (validateForm st))))"

definition error_message :: "form_state \<Rightarrow> string \<Rightarrow> string option" where
  \<comment> \<open>\<open>errors[field]\<close> after \<open>validateForm\<close>; \<open>None\<close> is \<open>undefined\<close>.\<close>
  "error_message st field = map_of (errors (fst (validateForm st))) field"

text \<open>
  Validity of a draft as the data model states it for the five validated fields, with
  the title also required to be non-blank.
\<close>

definition valid_draft :: "form_state \<Rightarrow> bool" where
  "valid_draft st \<longleftrightarrow>
     trim (jobTitle (formData st)) \<noteq> [] \<and>
     2 \<le> length (jobTitle (formData st)) \<and> length (jobTitle (formData st)) \<le> 200 \<and>
     0 \<le> yearsExperience (formData st) \<and> yearsExperience (formData st) \<le> 50 \<and>
     length (selectedSkills st) \<le> 20 \<and>
     length (selectedBenefits st) \<le> 15 \<and>
     length (jobDescription (formData st)) \<le> 10000"

definition toggleSkill :: "string \<Rightarrow> form_state \<Rightarrow> form_state" where
  "toggleSkill skill st =
     st\<lparr>selectedSkills :=
          (let prev = selectedSkills st
           in if skill \<in> set prev then filter (\<lambda>s. s \<noteq> skill) prev
              else if length prev < requiredSkills_maxItems VALIDATION_RULES then prev @ [skill]
              else prev)\<rparr>"

definition addCustomSkill :: "form_state \<Rightarrow> form_state" where
  "addCustomSkill st =
     (let skill = trim (customSkill st)
      in if skill \<noteq> [] \<and> skill \<notin> set (selectedSkills st) \<and>
            length (selectedSkills st) < requiredSkills_maxItems VALIDATION_RULES
         then st\<lparr>selectedSkills := selectedSkills st @ [skill], customSkill := []\<rparr>
         else st)"

definition auto_select_core_skills :: "form_state \<Rightarrow> form_state" where
  \<comment> \<open>The \<open>useEffect\<close> under "Auto-select core skills when job title changes";
      \<open>slice(0, 4)\<close> is \<open>take 4\<close>.\<close>
  "auto_select_core_skills st =
     (let recommendedSkills = getRecommendedSkills (jobTitle (formData st))
      in if jobTitle (formData st) \<noteq> [] \<and> length (selectedSkills st) = 0 \<and>
            length (core recommendedSkills) > 0
         then st\<lparr>selectedSkills := take 4 (core recommendedSkills)\<rparr>
         else st)"

definition add_all_essential :: "form_state \<Rightarrow> form_state" where
  \<comment> \<open>The click handler of the "+ Add All Essential" button.\<close>
  "add_all_essential st =
     (let recommendedSkills = getRecommendedSkills (jobTitle (formData st));
          coreSkills =
            filter (\<lambda>skill. skill \<notin> set (selectedSkills st) \<and>
                      length (selectedSkills st) +
                        length (filter (\<lambda>s. s \<notin> set (selectedSkills st))
                                  (core recommendedSkills))
                        \<le> requiredSkills_maxItems VALIDATION_RULES)
              (core recommendedSkills)
      in st\<lparr>selectedSkills := selectedSkills st @ coreSkills\<rparr>)"

definition remove_all_recommended :: "form_state \<Rightarrow> form_state" where
  \<comment> \<open>The click handler of the "- Remove All Recommended" button.\<close>
  "remove_all_recommended st =
     (let recommendedSkills = getRecommendedSkills (jobTitle (formData st))
      in st\<lparr>selectedSkills :=
              filter (\<lambda>skill. skill \<notin> set (core recommendedSkills) \<and>
                        skill \<notin> set (advanced recommendedSkills) \<and>
                        skill \<notin> set (tools recommendedSkills))
                (selectedSkills st)\<rparr>)"

definition skills_invariant :: "form_state \<Rightarrow> bool" where
  "skills_invariant st \<longleftrightarrow>
     distinct (selectedSkills st) \<and>
     length (selectedSkills st) \<le> requiredSkills_maxItems VALIDATION_RULES"

section \<open>Analytics dashboard: data sufficiency\<close>

record analytics_metadata =
  totalRecords :: int
  filteredRecords :: int

text \<open>
  The dashboard state \<open>data\<close> is \<open>AnalyticsData | null\<close>; only its metadata is read by the
  three helpers, so \<open>data\<close> is modelled as an optional metadata record.
\<close>

definition hasMinimumData :: "analytics_metadata option \<Rightarrow> bool" where
  "hasMinimumData data =
     (case data of None \<Rightarrow> False | Some d \<Rightarrow> filteredRecords d \<ge> 10)"

definition hasNoData :: "analytics_metadata option \<Rightarrow> bool" where
  "hasNoData data =
     (case data of None \<Rightarrow> True | Some d \<Rightarrow> filteredRecords d = 0)"

definition hasInsufficientData :: "analytics_metadata option \<Rightarrow> bool" where
  "hasInsufficientData data =
     (case data of None \<Rightarrow> False
      | Some d \<Rightarrow> filteredRecords d > 0 \<and> filteredRecords d < 10)"

datatype overview_view =
    Render_Nothing
  | EmptyDataState_no_data
  | EmptyDataState_insufficient_data int
  | Full_Charts bool

definition OverviewTab :: "analytics_metadata option \<Rightarrow> overview_view" where
  \<comment> \<open>The branches of \<open>OverviewTab\<close> in order; the chart set carries the \<open>isValid\<close> flag
      handed to its stat cards, the insufficient-data state the record count it prints.\<close>
  "OverviewTab data =
     (case data of None \<Rightarrow> Render_Nothing
      | Some d \<Rightarrow>
          if hasNoData data then EmptyDataState_no_data
          else if hasInsufficientData data
          then EmptyDataState_insufficient_data (filteredRecords d)
          else Full_Charts (hasMinimumData data))"

section \<open>Result presenter (PredictionResults)\<close>

text \<open>
  A JavaScript number is a binary64 double. A finite double is a rational number, and the
  model keeps it as one. The source's \<open>-\<close>, \<open>*\<close> and \<open>/\<close> are the exact operation followed by
  rounding to the nearest double, a tie going to the even significand, with the
  subnormal spacing \<open>2^-1074\<close> for magnitudes below \<open>2^-1022\<close>. Overflow to \<open>Infinity\<close>,
  \<open>NaN\<close> and the sign of zero are outside the model: its operations never overflow, so
  it speaks for the program as long as every magnitude stays below \<open>2^1024\<close>. A field that
  may be \<open>undefined\<close> is an \<open>option\<close>.
\<close>

definition binary_exponent :: "rat \<Rightarrow> int" where
  \<comment> \<open>For \<open>x \<noteq> 0\<close>, the \<open>e\<close> with \<open>2^e \<le> |x| < 2^(e+1)\<close>, from the bit lengths of
      numerator and denominator.\<close>
  "binary_exponent x =
     (let (p, q) = quotient_of \<bar>x\<bar>;
          k = bitlen p - bitlen q
      in if \<bar>x\<bar> < 2 powi k then k - 1 else k)"

definition round_half_even :: "rat \<Rightarrow> int" where
  "round_half_even x =
     (let f = \<lfloor>x\<rfloor>; d = x - of_int f
      in if d < 1 / 2 then f
         else if 1 / 2 < d then f + 1
         else if even f then f else f + 1)"

definition to_double :: "rat \<Rightarrow> rat" where
  \<comment> \<open>The double nearest to \<open>x\<close>: a multiple of \<open>2^(e-52)\<close>, where \<open>e\<close> is the exponent of
      \<open>x\<close>, or \<open>-1022\<close> when that is larger.\<close>
  "to_double x =
     (if x = 0 then 0
      else
        let e = max (binary_exponent x) (- 1022);
            ulp = 2 powi (e - 52)
        in of_int (round_half_even (x / ulp)) * ulp)"

definition is_double :: "rat \<Rightarrow> bool" where
  \<comment> \<open>The values a finite JavaScript number can hold.\<close>
  "is_double x \<longleftrightarrow> to_double x = x \<and> \<bar>x\<bar> < 2 ^ 1024"

definition js_sub :: "rat \<Rightarrow> rat \<Rightarrow> rat" where
  "js_sub a b = to_double (a - b)"

definition js_mul :: "rat \<Rightarrow> rat \<Rightarrow> rat" where
  "js_mul a b = to_double (a * b)"

definition js_div :: "rat \<Rightarrow> rat \<Rightarrow> rat" where
  \<comment> \<open>Only ever applied to a divisor that is not zero.\<close>
  "js_div a b = to_double (a / b)"

definition js_round :: "rat \<Rightarrow> int" where
  \<comment> \<open>\<open>Math.round\<close>: the nearest integer, a tie going up; exact on every double.\<close>
  "js_round x = \<lfloor>x + 1 / 2\<rfloor>"

definition falsy :: "rat option \<Rightarrow> bool" where
  \<comment> \<open>\<open>!x\<close> for a number that may be missing.\<close>
  "falsy x = (case x of None \<Rightarrow> True | Some v \<Rightarrow> v = 0)"

record confidence_interval =
  lower :: "rat option"
  upper :: "rat option"

record result_metadata =
  model_version :: "string option"
  model_type :: "string option"
  model_accuracy :: "rat option"
  prediction_timestamp :: "string option"
  features_processed :: "rat option"

record factor =
  name :: string
  impact :: rat
  description :: string

record prediction_result =
  predictedSalary :: "rat option"
  confidenceInterval :: "confidence_interval option"
  similarJobs :: "rat option"
  marketPosition :: "string option"
  factors :: "factor list option"
  metadata :: "result_metadata option"

record prediction_precision =
  percentage :: int
  range_width :: rat
  margin :: "int option"

definition salary_or_zero :: "prediction_result \<Rightarrow> rat" where
  \<comment> \<open>\<open>result.predictedSalary || 0\<close>\<close>
  "salary_or_zero result = (if falsy (predictedSalary result) then 0
                            else (case predictedSalary result of Some v \<Rightarrow> v | None \<Rightarrow> 0))"

definition interval_or_zero :: "prediction_result \<Rightarrow> confidence_interval" where
  \<comment> \<open>\<open>result.confidenceInterval || { lower: 0, upper: 0 }\<close>\<close>
  "interval_or_zero result =
     (case confidenceInterval result of
        None \<Rightarrow> \<lparr>lower = Some 0, upper = Some 0\<rparr>
      | Some ci \<Rightarrow> ci)"


definition getModelConfidence :: "result_metadata \<Rightarrow> int" where
  \<comment> \<open>The literal \<open>0.7336\<close> is the double nearest to that decimal.\<close>
  "getModelConfidence md =
     (let modelAccuracy =
            (if falsy (model_accuracy md) then to_double (7336 / 10000)
             else (case model_accuracy md of Some a \<Rightarrow> a | None \<Rightarrow> to_double (7336 / 10000)))
      in js_round (js_mul modelAccuracy 100))"

definition getPredictionPrecision :: "confidence_interval \<Rightarrow> rat \<Rightarrow> prediction_precision" where
  \<comment> \<open>The closure reads the two locals \<open>confidenceInterval\<close> and \<open>predictedSalary\<close>; the
      object returned early has no \<open>margin\<close> property. Its \<open>range\<close>, read by the page only
      as a ratio printed to one decimal, is kept as the exact product.\<close>
  "getPredictionPrecision ci salary =
     (case (upper ci, lower ci) of
        (Some up, Some lo) \<Rightarrow>
          if up = 0 \<or> lo = 0 \<or> salary = 0 \<or> salary = 0
          then \<lparr>percentage = 85, range_width = salary * (3 / 10), margin = None\<rparr>
          else
            let range = js_sub up lo;
                relativeUncertainty = js_div range salary;
                precision =
                  max 60 (min 95 (js_round (js_mul (js_sub 1 relativeUncertainty) 100)))
            in \<lparr>percentage = precision, range_width = range,
                margin = Some (js_round (js_div range 2))\<rparr>
      | _ \<Rightarrow> \<lparr>percentage = 85, range_width = salary * (3 / 10), margin = None\<rparr>)"


definition predictionPrecision :: "prediction_result \<Rightarrow> prediction_precision" where
  "predictionPrecision result =
     getPredictionPrecision (interval_or_zero result) (salary_or_zero result)"

definition displayed_margin :: "prediction_result \<Rightarrow> int" where
  \<comment> \<open>\<open>predictionPrecision.margin ?? 0\<close>, as every place that prints the margin reads it.\<close>
  "displayed_margin result =
     (case margin (predictionPrecision result) of None \<Rightarrow> 0 | Some m \<Rightarrow> m)"

definition clamp :: "int \<Rightarrow> int \<Rightarrow> int \<Rightarrow> int" where
  \<comment> \<open>The specification's \<open>clamp(x, lo, hi)\<close>.\<close>
  "clamp x lo hi = (if x < lo then lo else if hi < x then hi else x)"

section \<open>JSON bodies and responses of the prediction service\<close>

text \<open>
  A parsed JSON value, as far as the two callers of the service look at it: \<open>null\<close>, a
  string, an object (its properties in order, keys distinct), or any other value (a
  number, a boolean, an array), of which only its truthiness and its string conversion
  are observed.
\<close>

datatype json =
    JNull
  | JStr string
  | JObj "(string \<times> json) list"
  | JOther bool string

fun truthy :: "json \<Rightarrow> bool" where
  "truthy JNull = False"
| "truthy (JStr s) = (s \<noteq> [])"
| "truthy (JObj kvs) = True"
| "truthy (JOther b s) = b"

fun js_String :: "json \<Rightarrow> string" where
  \<comment> \<open>\<open>String(v)\<close>, the message \<open>new Error(v)\<close> gets.\<close>
  "js_String JNull = ''null''"
| "js_String (JStr s) = s"
| "js_String (JObj kvs) = ''[object Object]''"
| "js_String (JOther b s) = s"

fun get_prop :: "json \<Rightarrow> string \<Rightarrow> json option" where
  \<comment> \<open>\<open>v.key\<close> for a value that is not \<open>null\<close>; \<open>None\<close> is \<open>undefined\<close>.\<close>
  "get_prop (JObj kvs) key = map_of kvs key"
| "get_prop v key = None"

definition or_else :: "json option \<Rightarrow> string \<Rightarrow> json" where
  \<comment> \<open>\<open>v || 'default'\<close>\<close>
  "or_else v d = (case v of None \<Rightarrow> JStr d | Some j \<Rightarrow> if truthy j then j else JStr d)"

text \<open>
  What \<open>fetch\<close> resolves with. Reading the body can reject, so both readers are sums with
  the error's message on the left; \<open>content_type\<close> is \<open>headers.get('content-type')\<close>.
\<close>

record backend_response =
  ok :: bool
  status :: nat
  statusText :: string
  content_type :: "string option"
  text_body :: "string + string"
  json_body :: "string + json"

section \<open>The API route (app/api/predict/route.ts)\<close>

definition mockResult :: prediction_result where
  "mockResult =
     \<lparr>predictedSalary = Some 115000,
      confidenceInterval = Some \<lparr>lower = Some 92481, upper = Some 137519\<rparr>,
      similarJobs = Some 347,
      marketPosition = Some ''Average'',
      factors = Some [\<lparr>name = ''Service Unavailable'', impact = 0,
                       description = ''Using fallback prediction - Flask backend not available''\<rparr>],
      metadata = None\<rparr>"

datatype reply_body =
    Error_Body json json
  | Backend_Data json
  | Mock_Result prediction_result

record route_reply =
  reply_status :: nat
  reply_body :: reply_body

definition fallback_reply :: route_reply where
  \<comment> \<open>The \<open>catch\<close> block: \<open>NextResponse.json(mockResult)\<close>, status 200.\<close>
  "fallback_reply = \<lparr>reply_status = 200, reply_body = Mock_Result mockResult\<rparr>"

definition status_takes_body :: "nat \<Rightarrow> bool" where
  \<comment> \<open>\<open>NextResponse.json(body, { status })\<close> throws for a status outside 200-599 and for
      one that allows no body; of the latter only 304 is not a success status.\<close>
  "status_takes_body s \<longleftrightarrow> 200 \<le> s \<and> s \<le> 599 \<and> s \<noteq> 304"

definition POST :: "(string + json) \<Rightarrow> (string + backend_response) \<Rightarrow> route_reply" where
  \<comment> \<open>The first argument is the outcome of \<open>request.json()\<close>, the second that of \<open>fetch\<close>;
      \<open>Inl\<close> is a thrown error. Every throw inside \<open>try\<close> lands in the \<open>catch\<close> block:
      a body that does not parse, reading a property of \<open>null\<close>, and
      \<open>NextResponse.json\<close> refusing \<open>undefined\<close> or the status.\<close>
  "POST request_json fetched =
     (case request_json of
        Inl e \<Rightarrow> fallback_reply
      | Inr input \<Rightarrow>
          (case fetched of
             Inl e \<Rightarrow> fallback_reply
           | Inr response \<Rightarrow>
               if \<not> ok response then
                 (case json_body response of
                    Inl e \<Rightarrow> fallback_reply
                  | Inr JNull \<Rightarrow> fallback_reply
                  | Inr error \<Rightarrow>
                      if status_takes_body (status response)
                      then \<lparr>reply_status = status response,
                            reply_body =
                              Error_Body
                                (or_else (get_prop error ''error'') ''Prediction failed'')
                                (or_else (get_prop error ''message'') ''Unknown error occurred'')\<rparr>
                      else fallback_reply)
               else
                 (case json_body response of
                    Inl e \<Rightarrow> fallback_reply
                  | Inr JNull \<Rightarrow> fallback_reply
                  | Inr result \<Rightarrow>
                      (case get_prop result ''data'' of
                         None \<Rightarrow> fallback_reply
                       | Some d \<Rightarrow> \<lparr>reply_status = 200, reply_body = Backend_Data d\<rparr>))))"

section \<open>The prediction page (handlePrediction)\<close>

record page_state =
  prediction :: "json option"
  isLoading :: bool
  error :: "string option"

definition null_read_message :: string where
  \<comment> \<open>The message of the TypeError for \<open>result.status\<close> on \<open>null\<close> (V8's wording).\<close>
  "null_read_message =
     ''Cannot read properties of null (reading '' @ [CHR 0x27] @ ''status'' @ [CHR 0x27] @ '')''"

definition non_json_response :: "backend_response \<Rightarrow> string + json" where
  "non_json_response response =
     (case text_body response of
        Inl e \<Rightarrow> Inl e
      | Inr text \<Rightarrow> Inl ''Backend returned non-JSON response'')"

definition interpret_response :: "backend_response \<Rightarrow> string + json" where
  \<comment> \<open>The \<open>try\<close> body from \<open>if (!response.ok)\<close> on: \<open>Inl m\<close> is a thrown \<open>Error\<close> with message
      \<open>m\<close>, \<open>Inr v\<close> the value handed to \<open>setPrediction\<close>.\<close>
  "interpret_response response =
     (if \<not> ok response then
        (case text_body response of
           Inl e \<Rightarrow> Inl e
         | Inr errorText \<Rightarrow>
             Inl (''Backend error: '' @ show_nat (status response) @ '' '' @
                  statusText response))
      else
        (case content_type response of
           None \<Rightarrow> non_json_response response
         | Some contentType \<Rightarrow>
             if contentType = [] \<or> \<not> str_includes contentType ''application/json''
             then non_json_response response
             else
               (case json_body response of
                  Inl e \<Rightarrow> Inl e
                | Inr JNull \<Rightarrow> Inl null_read_message
                | Inr result \<Rightarrow>
                    if get_prop result ''status'' = Some (JStr ''success'') \<and>
                       (case get_prop result ''data'' of None \<Rightarrow> False | Some d \<Rightarrow> truthy d)
                    then (case get_prop result ''data'' of
                            Some d \<Rightarrow> Inr d | None \<Rightarrow> Inr result)
                    else if get_prop result ''status'' = Some (JStr ''error'')
                    then Inl (js_String (or_else (get_prop result ''message'') ''Prediction failed''))
                    else Inr result)))"

definition shown_error :: "string \<Rightarrow> string" where
  \<comment> \<open>The \<open>catch\<close> block: the last \<open>setError\<close> it runs for an \<open>Error\<close> with this message.\<close>
  "shown_error message =
     (if str_includes message ''fetch''
      then ''Cannot connect to prediction service. Please check if the backend is running.''
      else if str_includes message ''CORS''
      then ''CORS error. Please check backend CORS configuration.''
      else ''Prediction failed: '' @ message)"

definition handlePrediction :: "(string + backend_response) \<Rightarrow> page_state \<Rightarrow> page_state" where
  \<comment> \<open>The argument is the outcome of \<open>fetch\<close>. The state is the one after \<open>finally\<close>.\<close>
  "handlePrediction fetched st =
     (let st1 = st\<lparr>isLoading := True, error := None\<rparr>
      in case (case fetched of Inl e \<Rightarrow> Inl e | Inr response \<Rightarrow> interpret_response response) of
           Inr v \<Rightarrow> st1\<lparr>prediction := Some v, isLoading := False\<rparr>
         | Inl m \<Rightarrow> st1\<lparr>error := Some (shown_error m), isLoading := False\<rparr>)"




definition json_content_type :: "backend_response \<Rightarrow> bool" where
  \<comment> \<open>The response announces structured data: its content type mentions application/json.\<close>
  "json_content_type response =
     (case content_type response of
        None \<Rightarrow> False
      | Some c \<Rightarrow> str_includes c ''application/json'')"

section \<open>Concrete inputs\<close>

definition bare_result :: prediction_result where
  "bare_result =
     \<lparr>predictedSalary = None, confidenceInterval = None, similarJobs = None,
      marketPosition = None, factors = None, metadata = None\<rparr>"

definition example_result :: prediction_result where
  "example_result =
     bare_result\<lparr>predictedSalary := Some 125000,
                 confidenceInterval := Some \<lparr>lower = Some 110000, upper = Some 140000\<rparr>\<rparr>"

definition zero_lower_result :: prediction_result where
  \<comment> \<open>An interval that is present and starts at 0.\<close>
  "zero_lower_result =
     bare_result\<lparr>predictedSalary := Some 20000,
                 confidenceInterval := Some \<lparr>lower = Some 0, upper = Some 45000\<rparr>\<rparr>"

definition tie_result :: prediction_result where
  \<comment> \<open>Salary 60000 with the interval written 53850.1 to 66150.1: the bounds are the doubles
      nearest to these decimals.\<close>
  "tie_result =
     bare_result\<lparr>predictedSalary := Some 60000,
                 confidenceInterval :=
                   Some \<lparr>lower = Some (to_double (538501 / 10)),
                         upper = Some (to_double (661501 / 10))\<rparr>\<rparr>"

definition low_accuracy_metadata :: result_metadata where
  \<comment> \<open>A model accuracy written 0.575.\<close>
  "low_accuracy_metadata =
     \<lparr>model_version = None, model_type = None, model_accuracy = Some (to_double (575 / 1000)),
      prediction_timestamp = None, features_processed = None\<rparr>"


definition quoted :: "string \<Rightarrow> string" where
  "quoted s = CHR 0x22 # s @ [CHR 0x22]"

definition bad_request_response :: backend_response where
  \<comment> \<open>A 400 answer whose JSON body carries the service's own message.\<close>
  "bad_request_response =
     \<lparr>ok = False, status = 400, statusText = ''Bad Request'',
      content_type = Some ''application/json'',
      text_body = Inr (''{'' @ quoted ''status'' @ '':'' @ quoted ''error'' @ '','' @
                       quoted ''message'' @ '':'' @ quoted ''Invalid job title'' @ ''}''),
      json_body = Inr (JObj [(''status'', JStr ''error''),
                             (''message'', JStr ''Invalid job title'')])\<rparr>"

definition success_response :: backend_response where
  "success_response =
     \<lparr>ok = True, status = 200, statusText = ''OK'',
      content_type = Some ''application/json'',
      text_body = Inr (''{'' @ quoted ''status'' @ '':'' @ quoted ''success'' @ '','' @
                       quoted ''data'' @ '':{'' @ quoted ''predictedSalary'' @ '':125000}}''),
      json_body = Inr (JObj [(''status'', JStr ''success''),
                             (''data'', JObj [(''predictedSalary'', JOther True ''125000'')])])\<rparr>"

definition idle_page :: page_state where
  "idle_page = \<lparr>prediction = None, isLoading = False, error = None\<rparr>"

definition blank_title_draft :: form_state where
  \<comment> \<open>A title of 200 spaces, every other field as the form starts out.\<close>
  "blank_title_draft =
     initial_form_state\<lparr>formData := (formData initial_form_state)
       \<lparr>jobTitle := replicate 200 (CHR 0x20)\<rparr>\<rparr>"

definition long_title_draft :: form_state where
  \<comment> \<open>A title of 200 letters, every other field as the form starts out.\<close>
  "long_title_draft =
     initial_form_state\<lparr>formData := (formData initial_form_state)
       \<lparr>jobTitle := replicate 200 (CHR ''a'')\<rparr>\<rparr>"

definition out_of_range_draft :: form_state where
  \<comment> \<open>Location, company size and remote ratio outside what the data model declares.\<close>
  "out_of_range_draft =
     initial_form_state\<lparr>formData := (formData initial_form_state)
       \<lparr>jobTitle := ''Data Scientist'', companyLocation := ''Atlantis'',
        companySize := ''Gigantic'', remoteRatio := 250\<rparr>\<rparr>"

definition ml_engineer_draft :: form_state where
  "ml_engineer_draft =
     initial_form_state\<lparr>formData := (formData initial_form_state)
       \<lparr>jobTitle := ''Senior ML Engineer''\<rparr>\<rparr>"

section \<open>Properties\<close>

subsection \<open>Experience tiers\<close>

text \<open>
  C1. For every \<open>yearsExperience\<close> in [0,50], \<open>getExperienceLevelFromYears\<close> returns the tier
  of the closed integer interval the value lies in: [0,2] Entry Level, [3,5] Mid Level,
  [6,10] Senior Level, [11,50] Executive; the boundary values 2, 3, 5, 6, 10 and 11 fall on
  the stated side.
\<close>

theorem getExperienceLevelFromYears_tiers:
  assumes "0 \<le> y" and "y \<le> 50"
  shows "(y \<in> {0..2} \<longrightarrow> getExperienceLevelFromYears y = Entry_Level)
       \<and> (y \<in> {3..5} \<longrightarrow> getExperienceLevelFromYears y = Mid_Level)
       \<and> (y \<in> {6..10} \<longrightarrow> getExperienceLevelFromYears y = Senior_Level)
       \<and> (y \<in> {11..50} \<longrightarrow> getExperienceLevelFromYears y = Executive)
       \<and> (y \<in> {0..2} \<or> y \<in> {3..5} \<or> y \<in> {6..10} \<or> y \<in> {11..50})
       \<and> getExperienceLevelFromYears 2 = Entry_Level
       \<and> getExperienceLevelFromYears 3 = Mid_Level
       \<and> getExperienceLevelFromYears 5 = Mid_Level
       \<and> getExperienceLevelFromYears 6 = Senior_Level
       \<and> getExperienceLevelFromYears 10 = Senior_Level
       \<and> getExperienceLevelFromYears 11 = Executive"
  using assms unfolding getExperienceLevelFromYears_def by auto

theorem getExperienceLevelFromYears_tiers_witness:
  "(0::int) \<le> 7 \<and> (7::int) \<le> 50 \<and> (7::int) \<in> {6..10}
   \<and> getExperienceLevelFromYears 7 = Senior_Level"
proof -
  have lo: "(0::int) \<le> 7" and hi: "(7::int) \<le> 50" by simp_all
  from getExperienceLevelFromYears_tiers [OF lo hi] show ?thesis by simp
qed

subsection \<open>Skill recommendation\<close>

lemma first_role_match_find:
  "first_role_match t m = map_option snd (find (\<lambda>(role, sk). str_includes t role) m)"
  by (induction m) auto

lemma str_includes_Nil: "str_includes [] k \<longleftrightarrow> k = []"
  by (simp add: str_includes_def)

lemma case_find_Cons:
  "(case find P ((test, sk) # rest) of Some (a, b) \<Rightarrow> b | None \<Rightarrow> d)
     = (if P (test, sk) then sk else (case find P rest of Some (a, b) \<Rightarrow> b | None \<Rightarrow> d))"
  by simp

lemma partial_matches_find:
  "partial_matches t =
     (case find (\<lambda>(test, sk). test t) heuristic_cascade of
        Some (test, sk) \<Rightarrow> sk | None \<Rightarrow> no_skills)"
  unfolding partial_matches_def heuristic_cascade_def
  by (simp only: case_find_Cons prod.case find.simps(1) option.case)

lemma first_match_spec_Nil: "first_match_spec [] = no_skills"
  unfolding first_match_spec_def toLowerCase_def ROLE_SKILL_MAPPING_def
    heuristic_cascade_def Let_def list.map
  by (simp only: case_find_Cons prod.case find.simps(1) option.case str_includes_Nil
      list.simps if_False simp_thms)

lemma getRecommendedSkills_refines: "getRecommendedSkills t = first_match_spec t"
proof (cases "t = []")
  case True
  then show ?thesis by (simp add: getRecommendedSkills_def first_match_spec_Nil)
next
  case False
  then show ?thesis
    by (simp add: getRecommendedSkills_def first_match_spec_def Let_def
        first_role_match_find partial_matches_find split: option.splits)
qed

lemma senior_ml_engineer: "getRecommendedSkills ''Senior ML Engineer'' = ml_engineer"
  by code_simp

lemma first_role_match_first:
  assumes "\<forall>(r, s) \<in> set before. \<not> str_includes t r" and "str_includes t role"
  shows "first_role_match t (before @ (role, sk) # rest) = Some sk"
  using assms by (induction before) auto

lemma first_role_match_none:
  "(\<forall>(r, s) \<in> set m. \<not> str_includes t r) \<Longrightarrow> first_role_match t m = None"
  by (induction m) auto

lemma role_keys_nonempty: "(role, sk) \<in> set ROLE_SKILL_MAPPING \<Longrightarrow> role \<noteq> []"
  by (auto simp: ROLE_SKILL_MAPPING_def)

lemma first_key_wins:
  assumes tab: "ROLE_SKILL_MAPPING = before @ (role, sk) # rest"
    and none: "\<forall>(r, s) \<in> set before. \<not> str_includes (toLowerCase title) r"
    and hit: "str_includes (toLowerCase title) role"
  shows "getRecommendedSkills title = sk"
proof -
  have "(role, sk) \<in> set ROLE_SKILL_MAPPING" unfolding tab by simp
  then have "role \<noteq> []" by (rule role_keys_nonempty)
  with hit have "title \<noteq> []"
    by (auto simp: str_includes_Nil toLowerCase_def)
  moreover have "first_role_match (toLowerCase title) ROLE_SKILL_MAPPING = Some sk"
    unfolding tab using none hit by (rule first_role_match_first)
  ultimately show ?thesis by (simp add: getRecommendedSkills_def)
qed

lemma find_None_case:
  "(\<forall>(test, sk) \<in> set c. \<not> test t) \<Longrightarrow>
     (case find (\<lambda>(test, sk). test t) c of Some (test, sk) \<Rightarrow> sk | None \<Rightarrow> d) = d"
  by (induction c) auto

lemma nothing_matches:
  assumes "\<forall>(r, s) \<in> set ROLE_SKILL_MAPPING. \<not> str_includes (toLowerCase title) r"
    and "\<forall>(test, s) \<in> set heuristic_cascade. \<not> test (toLowerCase title)"
  shows "getRecommendedSkills title = no_skills"
  using first_role_match_none [OF assms(1)] find_None_case [OF assms(2)]
  by (simp add: getRecommendedSkills_def partial_matches_find)

lemma cascade_decides:
  assumes "\<forall>(r, s) \<in> set ROLE_SKILL_MAPPING. \<not> str_includes (toLowerCase title) r"
    and "title \<noteq> []"
  shows "getRecommendedSkills title = partial_matches (toLowerCase title)"
  using first_role_match_none [OF assms(1)] assms(2)
  by (simp add: getRecommendedSkills_def)

text \<open>
  C3. For every job title, \<open>getRecommendedSkills\<close> returns the skills of the first
  taxonomy key, in the taxonomy's order, that occurs in the lowercased title; with no such
  key, the result of the first passing test of the fixed heuristic cascade; with none of
  those either, three empty sequences. For "Senior ML Engineer" the core skills are
  Python, Machine Learning, TensorFlow, PyTorch, Docker.
\<close>

theorem getRecommendedSkills_first_match:
  "getRecommendedSkills title = first_match_spec title
   \<and> (ROLE_SKILL_MAPPING = before @ (role, sk) # rest \<and>
       (\<forall>(r, s) \<in> set before. \<not> str_includes (toLowerCase title) r) \<and>
       str_includes (toLowerCase title) role
       \<longrightarrow> getRecommendedSkills title = sk)
   \<and> (title \<noteq> [] \<and>
       (\<forall>(r, s) \<in> set ROLE_SKILL_MAPPING. \<not> str_includes (toLowerCase title) r)
       \<longrightarrow> getRecommendedSkills title = partial_matches (toLowerCase title))
   \<and> ((\<forall>(r, s) \<in> set ROLE_SKILL_MAPPING. \<not> str_includes (toLowerCase title) r) \<and>
       (\<forall>(test, s) \<in> set heuristic_cascade. \<not> test (toLowerCase title))
       \<longrightarrow> getRecommendedSkills title = no_skills)
   \<and> core (getRecommendedSkills ''Senior ML Engineer'') =
       [''Python'', ''Machine Learning'', ''TensorFlow'', ''PyTorch'', ''Docker'']"
proof (intro conjI impI; (elim conjE)?)
  show "getRecommendedSkills title = first_match_spec title"
    by (rule getRecommendedSkills_refines)
  show "core (getRecommendedSkills ''Senior ML Engineer'') =
       [''Python'', ''Machine Learning'', ''TensorFlow'', ''PyTorch'', ''Docker'']"
    unfolding senior_ml_engineer by (simp add: ml_engineer_def)
  show "getRecommendedSkills title = sk"
    if "ROLE_SKILL_MAPPING = before @ (role, sk) # rest"
      and "\<forall>(r, s) \<in> set before. \<not> str_includes (toLowerCase title) r"
      and "str_includes (toLowerCase title) role"
    using that by (rule first_key_wins)
  show "getRecommendedSkills title = partial_matches (toLowerCase title)"
    if "title \<noteq> []"
      and "\<forall>(r, s) \<in> set ROLE_SKILL_MAPPING. \<not> str_includes (toLowerCase title) r"
    using that(2,1) by (rule cascade_decides)
  show "getRecommendedSkills title = no_skills"
    if "\<forall>(r, s) \<in> set ROLE_SKILL_MAPPING. \<not> str_includes (toLowerCase title) r"
      and "\<forall>(test, s) \<in> set heuristic_cascade. \<not> test (toLowerCase title)"
    using that by (rule nothing_matches)
qed

theorem getRecommendedSkills_first_match_witness:
  "ROLE_SKILL_MAPPING =
     [(''data scientist'', data_scientist)] @ (''ml engineer'', ml_engineer) #
       drop 2 ROLE_SKILL_MAPPING
   \<and> \<not> str_includes (toLowerCase ''Senior ML Engineer'') ''data scientist''
   \<and> str_includes (toLowerCase ''Senior ML Engineer'') ''ml engineer''
   \<and> getRecommendedSkills ''Senior ML Engineer'' = ml_engineer
   \<and> first_match_spec ''Senior ML Engineer'' = ml_engineer"
proof -
  let ?t = "''Senior ML Engineer''"
  let ?before = "[(''data scientist'', data_scientist)]"
  have tab: "ROLE_SKILL_MAPPING =
      ?before @ (''ml engineer'', ml_engineer) # drop 2 ROLE_SKILL_MAPPING"
    by (simp add: ROLE_SKILL_MAPPING_def)
  have miss: "\<not> str_includes (toLowerCase ?t) ''data scientist''" by code_simp
  then have miss': "\<forall>(r, s) \<in> set ?before. \<not> str_includes (toLowerCase ?t) r" by simp
  have hit: "str_includes (toLowerCase ?t) ''ml engineer''" by code_simp
  note inst = getRecommendedSkills_first_match
    [of ?t ?before "''ml engineer''" ml_engineer "drop 2 ROLE_SKILL_MAPPING"]
  from inst tab miss' hit have a: "getRecommendedSkills ?t = ml_engineer" by blast
  from inst have b: "getRecommendedSkills ?t = first_match_spec ?t" by blast
  from a b have c: "first_match_spec ?t = ml_engineer" by simp
  from tab miss hit a c show ?thesis by blast
qed

subsection \<open>The selected-skills list\<close>

lemma first_role_match_in:
  "first_role_match t m = Some sk \<Longrightarrow> sk \<in> snd ` set m"
  by (induction m) (auto split: if_splits)

lemma if_in: "a \<in> S \<Longrightarrow> b \<in> S \<Longrightarrow> (if c then a else b) \<in> S"
  by simp

lemma table_values:
  "snd ` set ROLE_SKILL_MAPPING =
     {data_scientist, ml_engineer, data_engineer, data_analyst, ai_researcher,
      software_engineer, product_manager, devops_engineer, backend_engineer,
      frontend_engineer}"
  by (simp add: ROLE_SKILL_MAPPING_def)

lemma partial_matches_in:
  "partial_matches t \<in> insert no_skills (snd ` set ROLE_SKILL_MAPPING)"
  unfolding partial_matches_def table_values
  by (intro if_in) simp_all

lemma getRecommendedSkills_in:
  "getRecommendedSkills t \<in> insert no_skills (snd ` set ROLE_SKILL_MAPPING)"
proof (cases "t = []")
  case True
  then show ?thesis by (simp add: getRecommendedSkills_def)
next
  case False
  show ?thesis
  proof (cases "first_role_match (toLowerCase t) ROLE_SKILL_MAPPING")
    case None
    with False partial_matches_in [of "toLowerCase t"] show ?thesis
      by (simp add: getRecommendedSkills_def)
  next
    case (Some sk)
    with False first_role_match_in [OF Some] show ?thesis
      by (simp add: getRecommendedSkills_def)
  qed
qed

lemma distinct_core_table:
  "sk \<in> snd ` set ROLE_SKILL_MAPPING \<Longrightarrow> distinct (core sk)"
  unfolding ROLE_SKILL_MAPPING_def
  by (auto simp: data_scientist_def ml_engineer_def data_engineer_def data_analyst_def
      ai_researcher_def software_engineer_def product_manager_def devops_engineer_def
      backend_engineer_def frontend_engineer_def)

lemma distinct_core: "distinct (core (getRecommendedSkills t))"
  using getRecommendedSkills_in [of t] distinct_core_table [of "getRecommendedSkills t"]
  by (auto simp: no_skills_def)

lemma toggleSkill_inv: "skills_invariant st \<Longrightarrow> skills_invariant (toggleSkill skill st)"
  by (auto simp: skills_invariant_def toggleSkill_def Let_def
      intro: le_trans [OF length_filter_le])

lemma addCustomSkill_inv: "skills_invariant st \<Longrightarrow> skills_invariant (addCustomSkill st)"
  by (auto simp: skills_invariant_def addCustomSkill_def Let_def)

lemma auto_select_inv:
  "skills_invariant st \<Longrightarrow> skills_invariant (auto_select_core_skills st)"
  using distinct_core [of "jobTitle (formData st)"]
  by (auto simp: skills_invariant_def auto_select_core_skills_def Let_def VALIDATION_RULES_def)

lemma remove_all_inv:
  "skills_invariant st \<Longrightarrow> skills_invariant (remove_all_recommended st)"
  by (auto simp: skills_invariant_def remove_all_recommended_def Let_def
      intro: le_trans [OF length_filter_le])

lemma add_all_inv:
  assumes inv: "skills_invariant st"
  shows "skills_invariant (add_all_essential st)"
proof -
  let ?core = "core (getRecommendedSkills (jobTitle (formData st)))"
  let ?sel = "selectedSkills st"
  let ?n = "length ?sel + length (filter (\<lambda>s. s \<notin> set ?sel) ?core)"
  let ?max = "requiredSkills_maxItems VALIDATION_RULES"
  show ?thesis
  proof (cases "?n \<le> ?max")
    case True
    then have "filter (\<lambda>skill. skill \<notin> set ?sel \<and> ?n \<le> ?max) ?core
             = filter (\<lambda>s. s \<notin> set ?sel) ?core"
      by simp
    with True inv distinct_core [of "jobTitle (formData st)"] show ?thesis
      by (auto simp: skills_invariant_def add_all_essential_def Let_def)
  next
    case False
    then have "filter (\<lambda>skill. skill \<notin> set ?sel \<and> ?n \<le> ?max) ?core = []"
      by simp
    with inv show ?thesis
      by (auto simp: skills_invariant_def add_all_essential_def Let_def)
  qed
qed

text \<open>
  C10. Every operation on the selected-skills list keeps it free of duplicates and at most
  20 entries long, given that it was so before: \<open>toggleSkill\<close>, \<open>addCustomSkill\<close> and the
  auto-populate effect, and also the two quick-action buttons.
\<close>

theorem selectedSkills_invariant_preserved:
  assumes "skills_invariant st"
  shows "skills_invariant (toggleSkill skill st)
       \<and> skills_invariant (addCustomSkill st)
       \<and> skills_invariant (auto_select_core_skills st)
       \<and> skills_invariant (add_all_essential st)
       \<and> skills_invariant (remove_all_recommended st)
       \<and> (\<forall>st'. skills_invariant st' \<longleftrightarrow>
                 distinct (selectedSkills st') \<and> length (selectedSkills st') \<le> 20)"
  using assms toggleSkill_inv addCustomSkill_inv auto_select_inv add_all_inv remove_all_inv
  by (auto simp: skills_invariant_def VALIDATION_RULES_def)

theorem selectedSkills_invariant_preserved_witness:
  "skills_invariant ml_engineer_draft
   \<and> selectedSkills (auto_select_core_skills ml_engineer_draft) =
       [''Python'', ''Machine Learning'', ''TensorFlow'', ''PyTorch'']
   \<and> skills_invariant (auto_select_core_skills ml_engineer_draft)
   \<and> skills_invariant (toggleSkill ''SQL'' ml_engineer_draft)"
proof -
  have inv: "skills_invariant ml_engineer_draft"
    by (simp add: skills_invariant_def ml_engineer_draft_def initial_form_state_def)
  have sel: "selectedSkills (auto_select_core_skills ml_engineer_draft) =
       [''Python'', ''Machine Learning'', ''TensorFlow'', ''PyTorch'']"
    by code_simp
  from selectedSkills_invariant_preserved [OF inv, of "''SQL''"] inv sel
  show ?thesis by blast
qed

subsection \<open>Form validation\<close>

lemma show_nat_values:
  "show_nat 2 = ''2''" "show_nat 200 = ''200''" "show_nat 50 = ''50''"
  "show_nat 20 = ''20''" "show_nat 15 = ''15''" "show_nat 10000 = ''10000''"
  by (simp_all add: show_nat.simps)

lemma job_title_keys:
  "map fst (job_title_validation st) =
     (if trim (jobTitle (formData st)) = [] \<or> length (jobTitle (formData st)) < 2 \<or>
         length (jobTitle (formData st)) > 200 then [''jobTitle''] else [])"
  by (simp add: job_title_validation_def VALIDATION_RULES_def Let_def)

lemma years_keys:
  "map fst (years_experience_validation st) =
     (if yearsExperience (formData st) < 0 \<or> yearsExperience (formData st) > 50
      then [''yearsExperience''] else [])"
  by (simp add: years_experience_validation_def VALIDATION_RULES_def Let_def)

lemma skills_keys:
  "map fst (skills_validation st) =
     (if length (selectedSkills st) > 20 then [''requiredSkills''] else [])"
  by (simp add: skills_validation_def VALIDATION_RULES_def)

lemma benefits_keys:
  "map fst (benefits_validation st) =
     (if length (selectedBenefits st) > 15 then [''benefits''] else [])"
  by (simp add: benefits_validation_def VALIDATION_RULES_def)

lemma description_keys:
  "map fst (job_description_validation st) =
     (if length (jobDescription (formData st)) > 10000 then [''jobDescription''] else [])"
  by (auto simp add: job_description_validation_def VALIDATION_RULES_def Let_def)

lemmas block_keys = job_title_keys years_keys skills_keys benefits_keys description_keys

lemma error_keys_blocks:
  "error_keys st =
     set (map fst (job_title_validation st)) \<union> set (map fst (years_experience_validation st))
     \<union> set (map fst (skills_validation st)) \<union> set (map fst (benefits_validation st))
     \<union> set (map fst (job_description_validation st))"
  by (simp add: error_keys_def validateForm_def Let_def Un_assoc)

lemma key_jobTitle:
  "''jobTitle'' \<in> error_keys st \<longleftrightarrow>
     trim (jobTitle (formData st)) = [] \<or> length (jobTitle (formData st)) < 2 \<or>
     length (jobTitle (formData st)) > 200"
  unfolding error_keys_blocks block_keys by simp

lemma key_yearsExperience:
  "''yearsExperience'' \<in> error_keys st \<longleftrightarrow>
     yearsExperience (formData st) < 0 \<or> yearsExperience (formData st) > 50"
  unfolding error_keys_blocks block_keys by simp

lemma key_requiredSkills:
  "''requiredSkills'' \<in> error_keys st \<longleftrightarrow> length (selectedSkills st) > 20"
  unfolding error_keys_blocks block_keys by simp

lemma key_benefits: "''benefits'' \<in> error_keys st \<longleftrightarrow> length (selectedBenefits st) > 15"
  unfolding error_keys_blocks block_keys by simp

lemma key_jobDescription:
  "''jobDescription'' \<in> error_keys st \<longleftrightarrow> length (jobDescription (formData st)) > 10000"
  unfolding error_keys_blocks block_keys by simp

lemma error_keys_subset:
  "error_keys st \<subseteq>
     {''jobTitle'', ''yearsExperience'', ''requiredSkills'', ''benefits'', ''jobDescription''}"
  unfolding error_keys_blocks block_keys by (auto split: if_splits)

lemma errors_empty_iff: "errors (fst (validateForm st)) = [] \<longleftrightarrow> valid_draft st"
proof -
  have "errors (fst (validateForm st)) = [] \<longleftrightarrow> error_keys st = {}"
    by (simp add: error_keys_def)
  also have "\<dots> \<longleftrightarrow> valid_draft st"
    unfolding error_keys_blocks block_keys valid_draft_def
    by (simp add: not_less)
  finally show ?thesis .
qed

lemma validateForm_returns:
  "snd (validateForm st) \<longleftrightarrow> errors (fst (validateForm st)) = []"
  by (simp add: validateForm_def Let_def)

lemma job_title_no_years: "map_of (job_title_validation st) ''yearsExperience'' = None"
  by (simp add: job_title_validation_def Let_def)

lemma years_negative_message:
  "yearsExperience (formData st) < 0 \<Longrightarrow>
     error_message st ''yearsExperience'' = Some ''Years of experience cannot be negative''"
  unfolding error_message_def validateForm_def Let_def fst_conv
  by (simp add: map_add_def job_title_no_years years_experience_validation_def
      VALIDATION_RULES_def Let_def)

lemma years_above_message:
  "yearsExperience (formData st) > 50 \<Longrightarrow>
     error_message st ''yearsExperience'' = Some ''Years of experience cannot exceed 50''"
  unfolding error_message_def validateForm_def Let_def fst_conv
  by (simp add: map_add_def job_title_no_years years_experience_validation_def
      VALIDATION_RULES_def Let_def show_nat_values)

lemma validateForm_ignores_unvalidated:
  "validateForm
     (st\<lparr>formData := (formData st)\<lparr>companyLocation := loc, companySize := sz, remoteRatio := r\<rparr>\<rparr>)
   = (fst (validateForm st)
        \<lparr>formData := (formData st)\<lparr>companyLocation := loc, companySize := sz, remoteRatio := r\<rparr>\<rparr>,
      snd (validateForm st))"
  by (simp add: validateForm_def Let_def job_title_validation_def
      years_experience_validation_def skills_validation_def benefits_validation_def
      job_description_validation_def)

lemma trim_Nil: "trim [] = []"
  by (simp add: trim_def)

lemma trim_spaces: "trim (replicate n (CHR 0x20)) = []"
  by (simp add: trim_def isWhiteSpace_def dropWhile_replicate)

lemma trim_letters: "trim (replicate n (CHR ''a'')) = replicate n (CHR ''a'')"
  by (simp add: trim_def isWhiteSpace_def dropWhile_replicate)

text \<open>
  C6, as the code has it. \<open>validateForm\<close> stores an entry for a field exactly when that
  field's rule is violated, each rule reading its own field only; the stored mapping is
  empty, and the function returns true, exactly when the draft is valid, where a valid
  title is also non-blank after trimming. An empty title and a title of 201 characters are
  reported under "jobTitle"; a non-blank title of exactly 200 characters with the other
  fields valid gives the empty mapping; negative and above-maximum years of experience
  are reported with two different messages.
\<close>

theorem validateForm_reports_violations:
  "(''jobTitle'' \<in> error_keys st \<longleftrightarrow>
      trim (jobTitle (formData st)) = [] \<or> length (jobTitle (formData st)) < 2 \<or>
      length (jobTitle (formData st)) > 200)
   \<and> (''yearsExperience'' \<in> error_keys st \<longleftrightarrow>
        yearsExperience (formData st) < 0 \<or> yearsExperience (formData st) > 50)
   \<and> (''requiredSkills'' \<in> error_keys st \<longleftrightarrow> length (selectedSkills st) > 20)
   \<and> (''benefits'' \<in> error_keys st \<longleftrightarrow> length (selectedBenefits st) > 15)
   \<and> (''jobDescription'' \<in> error_keys st \<longleftrightarrow> length (jobDescription (formData st)) > 10000)
   \<and> (snd (validateForm st) \<longleftrightarrow> errors (fst (validateForm st)) = [])
   \<and> (errors (fst (validateForm st)) = [] \<longleftrightarrow> valid_draft st)
   \<and> (jobTitle (formData st) = [] \<longrightarrow> ''jobTitle'' \<in> error_keys st)
   \<and> (length (jobTitle (formData st)) = 201 \<longrightarrow> ''jobTitle'' \<in> error_keys st)
   \<and> (length (jobTitle (formData st)) = 200 \<and> trim (jobTitle (formData st)) \<noteq> [] \<and>
       0 \<le> yearsExperience (formData st) \<and> yearsExperience (formData st) \<le> 50 \<and>
       length (selectedSkills st) \<le> 20 \<and> length (selectedBenefits st) \<le> 15 \<and>
       length (jobDescription (formData st)) \<le> 10000
       \<longrightarrow> errors (fst (validateForm st)) = [])
   \<and> (yearsExperience (formData st) < 0 \<longrightarrow>
        error_message st ''yearsExperience'' = Some ''Years of experience cannot be negative'')
   \<and> (yearsExperience (formData st) > 50 \<longrightarrow>
        error_message st ''yearsExperience'' = Some ''Years of experience cannot exceed 50'')
   \<and> ''Years of experience cannot be negative'' \<noteq> ''Years of experience cannot exceed 50''"
proof (intro conjI impI)
  show "errors (fst (validateForm st)) = []"
    if "length (jobTitle (formData st)) = 200 \<and> trim (jobTitle (formData st)) \<noteq> [] \<and>
       0 \<le> yearsExperience (formData st) \<and> yearsExperience (formData st) \<le> 50 \<and>
       length (selectedSkills st) \<le> 20 \<and> length (selectedBenefits st) \<le> 15 \<and>
       length (jobDescription (formData st)) \<le> 10000"
    using that by (simp add: errors_empty_iff valid_draft_def)
qed (simp_all add: key_jobTitle key_yearsExperience key_requiredSkills key_benefits
    key_jobDescription validateForm_returns errors_empty_iff trim_Nil
    years_negative_message years_above_message)

theorem validateForm_reports_violations_witness:
  "length (jobTitle (formData long_title_draft)) = 200
   \<and> valid_draft long_title_draft
   \<and> errors (fst (validateForm long_title_draft)) = []
   \<and> snd (validateForm long_title_draft)
   \<and> ''jobTitle'' \<notin> error_keys long_title_draft"
proof -
  have len: "length (jobTitle (formData long_title_draft)) = 200"
    by (simp add: long_title_draft_def initial_form_state_def)
  have valid: "valid_draft long_title_draft"
    by (simp add: valid_draft_def long_title_draft_def initial_form_state_def trim_letters)
  from validateForm_reports_violations [of long_title_draft] len valid show ?thesis
    by (simp add: valid_draft_def)
qed

theorem validateForm_blank_title_counterexample:
  "length (jobTitle (formData blank_title_draft)) = 200
   \<and> 0 \<le> yearsExperience (formData blank_title_draft)
   \<and> yearsExperience (formData blank_title_draft) \<le> 50
   \<and> length (selectedSkills blank_title_draft) \<le> 20
   \<and> length (selectedBenefits blank_title_draft) \<le> 15
   \<and> length (jobDescription (formData blank_title_draft)) \<le> 10000
   \<and> errors (fst (validateForm blank_title_draft)) = [(''jobTitle'', ''Job title is required'')]
   \<and> \<not> snd (validateForm blank_title_draft)"
  by (simp add: blank_title_draft_def initial_form_state_def validateForm_def Let_def
      job_title_validation_def years_experience_validation_def skills_validation_def
      benefits_validation_def job_description_validation_def VALIDATION_RULES_def trim_spaces)

text \<open>
  C9. The keys \<open>validateForm\<close> stores lie among jobTitle, yearsExperience, requiredSkills,
  benefits and jobDescription. companyLocation, companySize and remoteRatio are never
  keys, and changing these three fields to any values at all leaves the reported keys
  unchanged.
\<close>

theorem validateForm_keys_validated_fields_only:
  "error_keys st \<subseteq>
     {''jobTitle'', ''yearsExperience'', ''requiredSkills'', ''benefits'', ''jobDescription''}
   \<and> ''companyLocation'' \<notin> error_keys st
   \<and> ''companySize'' \<notin> error_keys st
   \<and> ''remoteRatio'' \<notin> error_keys st
   \<and> error_keys
       (st\<lparr>formData := (formData st)\<lparr>companyLocation := loc, companySize := sz, remoteRatio := r\<rparr>\<rparr>)
       = error_keys st"
proof (intro conjI)
  show sub: "error_keys st \<subseteq>
     {''jobTitle'', ''yearsExperience'', ''requiredSkills'', ''benefits'', ''jobDescription''}"
    by (rule error_keys_subset)
  from sub show "''companyLocation'' \<notin> error_keys st" by auto
  from sub show "''companySize'' \<notin> error_keys st" by auto
  from sub show "''remoteRatio'' \<notin> error_keys st" by auto
  show "error_keys
       (st\<lparr>formData := (formData st)\<lparr>companyLocation := loc, companySize := sz, remoteRatio := r\<rparr>\<rparr>)
       = error_keys st"
    unfolding error_keys_def validateForm_ignores_unvalidated by simp
qed

theorem validateForm_keys_validated_fields_only_witness:
  "companyLocation (formData out_of_range_draft) = ''Atlantis''
   \<and> companySize (formData out_of_range_draft) = ''Gigantic''
   \<and> remoteRatio (formData out_of_range_draft) = 250
   \<and> ''companyLocation'' \<notin> error_keys out_of_range_draft
   \<and> ''companySize'' \<notin> error_keys out_of_range_draft
   \<and> ''remoteRatio'' \<notin> error_keys out_of_range_draft"
  using validateForm_keys_validated_fields_only [of out_of_range_draft]
  by (simp add: out_of_range_draft_def initial_form_state_def)

subsection \<open>Degraded-mode result of the API route\<close>

lemma POST_fetch_throws: "POST request_json (Inl e) = fallback_reply"
  by (cases request_json) (simp_all add: POST_def)

lemma POST_body_without_data:
  assumes "ok response" and "json_body response = Inr (JObj kvs)"
    and "map_of kvs ''data'' = None"
  shows "POST (Inr input) (Inr response) = fallback_reply"
  using assms by (simp add: POST_def)

text \<open>
  C2. When the fetch to the backend throws, the API route answers, with status 200 and not
  as an error, the degraded-mode result: predictedSalary 115000, confidence interval
  92481 to 137519, and a factors list of exactly one entry, named "Service Unavailable",
  with impact 0.
\<close>

theorem POST_network_failure_fallback:
  "POST request_json (Inl e) = \<lparr>reply_status = 200, reply_body = Mock_Result mockResult\<rparr>
   \<and> predictedSalary mockResult = Some 115000
   \<and> confidenceInterval mockResult = Some \<lparr>lower = Some 92481, upper = Some 137519\<rparr>
   \<and> (\<exists>d. factors mockResult =
          Some [\<lparr>name = ''Service Unavailable'', impact = 0, description = d\<rparr>])"
  by (simp add: POST_fetch_throws fallback_reply_def mockResult_def)

theorem POST_network_failure_fallback_witness:
  "reply_body (POST (Inr (JObj [])) (Inl ''fetch failed'')) = Mock_Result mockResult
   \<and> reply_status (POST (Inr (JObj [])) (Inl ''fetch failed'')) = 200"
  using POST_network_failure_fallback [of "Inr (JObj [])" "''fetch failed''"] by simp

subsection \<open>Result presenter\<close>

text \<open>
  The exponent found from the bit lengths is the binary exponent, a rounded value is
  within half a unit in the last place of the exact one, and with bounds of magnitude at
  most \<open>2^500\<close> and a salary of magnitude at least \<open>2^-500\<close> every intermediate result
  of the precision computation stays below \<open>2^1024\<close>: the runtime does not overflow there.
\<close>

lemma bitlen_powi_bounds:
  assumes "0 < p"
  shows "2 powi (bitlen p - 1) \<le> (of_int p :: rat)" and "(of_int p :: rat) < 2 powi (bitlen p)"
proof -
  from assms have b1: "1 \<le> bitlen p" by (auto simp: bitlen_alt_def)
  from bitlen_bounds [OF assms]
  have lo: "2 ^ nat (bitlen p - 1) \<le> p" and hi: "p < 2 ^ nat (bitlen p)" by auto
  from lo have "(of_int (2 ^ nat (bitlen p - 1)) :: rat) \<le> of_int p"
    by (simp only: of_int_le_iff)
  with b1 show "2 powi (bitlen p - 1) \<le> (of_int p :: rat)"
    by (simp add: power_int_def)
  from hi have "(of_int p :: rat) < of_int (2 ^ nat (bitlen p))"
    by (simp only: of_int_less_iff)
  with b1 show "(of_int p :: rat) < 2 powi (bitlen p)"
    by (simp add: power_int_def)
qed

lemma binary_exponent_bounds:
  assumes "x \<noteq> 0"
  shows "2 powi (binary_exponent x) \<le> \<bar>x\<bar>" and "\<bar>x\<bar> < 2 powi (binary_exponent x + 1)"
proof -
  obtain p q where pq: "quotient_of \<bar>x\<bar> = (p, q)" by (cases "quotient_of \<bar>x\<bar>")
  then have q: "0 < q" by (rule quotient_of_denom_pos)
  from pq have x: "\<bar>x\<bar> = of_int p / of_int q" by (rule quotient_of_div)
  from assms have "0 < \<bar>x\<bar>" by simp
  with x q have p: "0 < p" by (simp add: zero_less_divide_iff)
  let ?k = "bitlen p - bitlen q"
  have qpos: "(0 :: rat) < of_int q" using q by simp
  have low: "2 powi (?k - 1) < \<bar>x\<bar>"
  proof -
    have "2 powi (?k - 1) = (2 powi (bitlen p - 1) :: rat) / 2 powi (bitlen q)"
      by (simp add: power_int_diff)
    also have "\<dots> \<le> of_int p / 2 powi (bitlen q)"
      using bitlen_powi_bounds(1) [OF p] by (simp add: divide_right_mono)
    also have "\<dots> < of_int p / of_int q"
      using bitlen_powi_bounds(2) [OF q] p qpos by (simp add: divide_strict_left_mono)
    finally show ?thesis by (simp add: x)
  qed
  have high: "\<bar>x\<bar> < 2 powi (?k + 1)"
  proof -
    have "\<bar>x\<bar> = of_int p / of_int q" by (rule x)
    also have "\<dots> < 2 powi (bitlen p) / of_int q"
      using bitlen_powi_bounds(2) [OF p] qpos by (simp add: divide_strict_right_mono)
    also have "\<dots> \<le> 2 powi (bitlen p) / 2 powi (bitlen q - 1)"
      using bitlen_powi_bounds(1) [OF q] by (intro frac_le) simp_all
    also have "\<dots> = 2 powi (bitlen p - (bitlen q - 1))"
      by (subst power_int_diff) simp_all
    also have "bitlen p - (bitlen q - 1) = ?k + 1"
      by simp
    finally show ?thesis .
  qed
  have e: "binary_exponent x = (if \<bar>x\<bar> < 2 powi ?k then ?k - 1 else ?k)"
    by (simp add: binary_exponent_def pq Let_def)
  show "2 powi (binary_exponent x) \<le> \<bar>x\<bar>"
    using low by (auto simp: e)
  show "\<bar>x\<bar> < 2 powi (binary_exponent x + 1)"
    using high by (auto simp: e)
qed

lemma round_half_even_error: "\<bar>of_int (round_half_even y) - y\<bar> \<le> 1 / 2"
proof -
  have "of_int \<lfloor>y\<rfloor> \<le> y" "y < of_int \<lfloor>y\<rfloor> + 1" by linarith+
  then show ?thesis
    by (auto simp: round_half_even_def Let_def)
qed

lemma to_double_error:
  assumes "x \<noteq> 0"
  shows "\<bar>to_double x - x\<bar> \<le> 2 powi (max (binary_exponent x) (- 1022) - 52) / 2"
proof -
  let ?ulp = "2 powi (max (binary_exponent x) (- 1022) - 52) :: rat"
  have pos: "0 < ?ulp" by simp
  have td: "to_double x = of_int (round_half_even (x / ?ulp)) * ?ulp"
    using assms by (simp add: to_double_def Let_def)
  have "\<bar>to_double x - x\<bar> = \<bar>of_int (round_half_even (x / ?ulp)) - x / ?ulp\<bar> * ?ulp"
  proof -
    have "to_double x - x = (of_int (round_half_even (x / ?ulp)) - x / ?ulp) * ?ulp"
      using pos by (simp add: td algebra_simps)
    then show ?thesis using pos by (simp add: abs_mult)
  qed
  also have "\<dots> \<le> (1 / 2) * ?ulp"
    using round_half_even_error [of "x / ?ulp"] pos by (intro mult_right_mono) simp_all
  finally show ?thesis by simp
qed

lemma ulp_le:
  assumes "x \<noteq> 0"
  shows "2 powi (max (binary_exponent x) (- 1022) - 52) \<le> \<bar>x\<bar> + (1 :: rat)"
proof (cases "- 1022 \<le> binary_exponent x")
  case True
  then have "max (binary_exponent x) (- 1022) - 52 \<le> binary_exponent x" by simp
  then have "(2 :: rat) powi (max (binary_exponent x) (- 1022) - 52) \<le> 2 powi (binary_exponent x)"
    by (intro power_int_increasing) simp_all
  also have "\<dots> \<le> \<bar>x\<bar>" by (rule binary_exponent_bounds(1) [OF assms])
  finally show ?thesis by simp
next
  case False
  then have "max (binary_exponent x) (- 1022) - 52 \<le> 0" by simp
  then have "(2 :: rat) powi (max (binary_exponent x) (- 1022) - 52) \<le> 2 powi 0"
    by (intro power_int_increasing) simp_all
  then show ?thesis by simp
qed

lemma to_double_magnitude: "\<bar>to_double x\<bar> \<le> 2 * \<bar>x\<bar> + 1"
proof (cases "x = 0")
  case True
  then show ?thesis by (simp add: to_double_def)
next
  case False
  from to_double_error [OF False] ulp_le [OF False]
  show ?thesis by linarith
qed

lemma to_double_bound:
  assumes "\<bar>x\<bar> \<le> B" and "1 \<le> B"
  shows "\<bar>to_double x\<bar> \<le> 3 * B"
  using to_double_magnitude [of x] assms by linarith

lemma no_overflow:
  assumes lo: "\<bar>lo\<bar> \<le> 2 ^ 500" and up: "\<bar>up\<bar> \<le> 2 ^ 500" and s: "1 / 2 ^ 500 \<le> \<bar>s\<bar>"
  shows "\<bar>js_sub up lo\<bar> < 2 ^ 1024"
    and "\<bar>js_div (js_sub up lo) 2\<bar> < 2 ^ 1024"
    and "\<bar>js_div (js_sub up lo) s\<bar> < 2 ^ 1024"
    and "\<bar>js_sub 1 (js_div (js_sub up lo) s)\<bar> < 2 ^ 1024"
    and "\<bar>js_mul (js_sub 1 (js_div (js_sub up lo) s)) 100\<bar> < 2 ^ 1024"
proof -
  define P :: rat where "P = 2 ^ 500"
  have P1: "1 \<le> P" by (simp add: P_def)
  have PP: "P * P = 2 ^ 1000" by (simp add: P_def flip: power_add)
  have big: "(2 :: rat) ^ 1024 = 16777216 * (P * P)"
    unfolding PP by (simp flip: power_add)
  have "(0 :: rat) < 1 / 2 ^ 500" by simp
  with s have spos: "0 < \<bar>s\<bar>" by linarith
  have sinv: "1 / \<bar>s\<bar> \<le> P"
  proof -
    have "1 / \<bar>s\<bar> \<le> 1 / (1 / 2 ^ 500)"
      using s by (intro divide_left_mono) simp_all
    then show ?thesis by (simp add: P_def)
  qed
  have r0: "\<bar>up - lo\<bar> \<le> 2 * P" using lo up by (simp add: P_def)
  have r: "\<bar>js_sub up lo\<bar> \<le> 6 * P"
    using to_double_bound [OF r0] P1 by (simp add: js_sub_def)
  have h0: "\<bar>js_sub up lo / 2\<bar> \<le> 3 * P" using r by simp
  have h: "\<bar>js_div (js_sub up lo) 2\<bar> \<le> 9 * P"
    using to_double_bound [OF h0] P1 by (simp add: js_div_def)
  have q0: "\<bar>js_sub up lo / s\<bar> \<le> 6 * (P * P)"
  proof -
    have "\<bar>js_sub up lo / s\<bar> = \<bar>js_sub up lo\<bar> * (1 / \<bar>s\<bar>)" by (simp add: abs_divide)
    also have "\<dots> \<le> (6 * P) * P"
      using r sinv spos by (intro mult_mono) simp_all
    finally show ?thesis by (simp add: mult.assoc)
  qed
  have PP1: "1 \<le> P * P" using P1 by (simp add: PP)
  have q: "\<bar>js_div (js_sub up lo) s\<bar> \<le> 18 * (P * P)"
    using to_double_bound [OF q0] PP1 by (simp add: js_div_def)
  have d0: "\<bar>1 - js_div (js_sub up lo) s\<bar> \<le> 19 * (P * P)" using q PP1 by linarith
  have d: "\<bar>js_sub 1 (js_div (js_sub up lo) s)\<bar> \<le> 57 * (P * P)"
    using to_double_bound [OF d0] PP1 by (simp add: js_sub_def)
  have m0: "\<bar>js_sub 1 (js_div (js_sub up lo) s) * 100\<bar> \<le> 5700 * (P * P)"
    using d by (simp add: abs_mult)
  have m: "\<bar>js_mul (js_sub 1 (js_div (js_sub up lo) s)) 100\<bar> \<le> 17100 * (P * P)"
    using to_double_bound [OF m0] PP1 by (simp add: js_mul_def)
  have PPpos: "0 < P * P" using PP1 by linarith
  have PleP: "P \<le> P * P" using P1 by (simp add: mult_le_cancel_left1)
  show "\<bar>js_sub up lo\<bar> < 2 ^ 1024" unfolding big using r PleP PPpos by linarith
  show "\<bar>js_div (js_sub up lo) 2\<bar> < 2 ^ 1024" unfolding big using h PleP PPpos by linarith
  show "\<bar>js_div (js_sub up lo) s\<bar> < 2 ^ 1024" unfolding big using q PPpos by linarith
  show "\<bar>js_sub 1 (js_div (js_sub up lo) s)\<bar> < 2 ^ 1024" unfolding big using d PPpos by linarith
  show "\<bar>js_mul (js_sub 1 (js_div (js_sub up lo) s)) 100\<bar> < 2 ^ 1024"
    unfolding big using m PPpos by linarith
qed

lemma is_doubleI: "to_double x = x \<Longrightarrow> \<bar>x\<bar> < 2 ^ 1024 \<Longrightarrow> is_double x"
  by (simp add: is_double_def)

lemma clamp_max_min: "max 60 (min 95 x) = clamp x 60 95"
  by (auto simp: clamp_def)

lemma precision_present:
  assumes "confidenceInterval r = Some ci" and "lower ci = Some lo" and "upper ci = Some up"
    and "lo \<noteq> 0" and "up \<noteq> 0" and "predictedSalary r = Some s" and "s \<noteq> 0"
  shows "predictionPrecision r =
     \<lparr>percentage =
        max 60 (min 95 (js_round (js_mul (js_sub 1 (js_div (js_sub up lo) s)) 100))),
      range_width = js_sub up lo, margin = Some (js_round (js_div (js_sub up lo) 2))\<rparr>"
  using assms
  by (simp add: predictionPrecision_def getPredictionPrecision_def interval_or_zero_def
      salary_or_zero_def falsy_def Let_def)

lemma example_values:
  "margin (predictionPrecision example_result) = Some 15000"
  "percentage (predictionPrecision example_result) = 76"
  by code_simp+



text \<open>
  Two inputs on which rounding in doubles and exact arithmetic part ways. For the salary
  60000 and the interval 53850.1 to 66150.1 the doubles give exactly 79.5, shown as 80,
  where the exact quotient lies below 79.5; a model accuracy of 0.575 times 100 is just
  below 57.5 in doubles and is shown as 57.
\<close>

lemma tie_result_percentage:
  "percentage (predictionPrecision tie_result) = 80"
  "margin (predictionPrecision tie_result) = Some 6150"
  by code_simp+

lemma tie_result_exact_arithmetic:
  "js_round ((1 - (to_double (661501 / 10) - to_double (538501 / 10)) / 60000) * 100) = 79"
  by code_simp

lemma low_accuracy_confidence: "getModelConfidence low_accuracy_metadata = 57"
  by code_simp



text \<open>
  C4, as the code has it. For every result whose two interval bounds are present and
  non-zero and whose predicted salary is non-zero, the margin of error is
  round((upper - lower) / 2) and the precision is
  clamp(round((1 - (upper - lower) / predictedSalary) * 100), 60, 95), where each
  subtraction, division and multiplication is the double operation the code performs.
  The three numbers are doubles, the bounds at most \<open>2^500\<close> and the salary at least
  \<open>2^-500\<close> in magnitude, a range within which no operation overflows. For a salary of
  125000 with the interval 110000 to 140000 the margin is 15000 and the precision 76.
\<close>

theorem predictionPrecision_formula:
  assumes "confidenceInterval r = Some ci" and "lower ci = Some lo" and "upper ci = Some up"
    and "lo \<noteq> 0" and "up \<noteq> 0" and "predictedSalary r = Some s" and "s \<noteq> 0"
    and "is_double lo" and "is_double up" and "is_double s"
    and "\<bar>lo\<bar> \<le> 2 ^ 500" and "\<bar>up\<bar> \<le> 2 ^ 500" and "1 / 2 ^ 500 \<le> \<bar>s\<bar>"
  shows "margin (predictionPrecision r) = Some (js_round (js_div (js_sub up lo) 2))
       \<and> displayed_margin r = js_round (js_div (js_sub up lo) 2)
       \<and> percentage (predictionPrecision r) =
           clamp (js_round (js_mul (js_sub 1 (js_div (js_sub up lo) s)) 100)) 60 95
       \<and> \<bar>js_sub up lo\<bar> < 2 ^ 1024
       \<and> \<bar>js_div (js_sub up lo) 2\<bar> < 2 ^ 1024
       \<and> \<bar>js_div (js_sub up lo) s\<bar> < 2 ^ 1024
       \<and> \<bar>js_sub 1 (js_div (js_sub up lo) s)\<bar> < 2 ^ 1024
       \<and> \<bar>js_mul (js_sub 1 (js_div (js_sub up lo) s)) 100\<bar> < 2 ^ 1024
       \<and> margin (predictionPrecision example_result) = Some 15000
       \<and> percentage (predictionPrecision example_result) = 76"
proof -
  note pp = precision_present [OF assms(1-7)]
  note fin = no_overflow [OF assms(11-13)]
  have "margin (predictionPrecision r) = Some (js_round (js_div (js_sub up lo) 2))"
    by (simp add: pp)
  moreover have "displayed_margin r = js_round (js_div (js_sub up lo) 2)"
    by (simp add: displayed_margin_def pp)
  moreover have "percentage (predictionPrecision r) =
      clamp (js_round (js_mul (js_sub 1 (js_div (js_sub up lo) s)) 100)) 60 95"
    by (simp add: pp clamp_max_min)
  ultimately show ?thesis
    using fin example_values by blast
qed

theorem predictionPrecision_formula_witness:
  "confidenceInterval example_result = Some \<lparr>lower = Some 110000, upper = Some 140000\<rparr>
   \<and> predictedSalary example_result = Some 125000
   \<and> is_double 110000 \<and> is_double 140000 \<and> is_double 125000
   \<and> margin (predictionPrecision example_result) =
       Some (js_round (js_div (js_sub 140000 110000) 2))
   \<and> percentage (predictionPrecision example_result) =
       clamp (js_round (js_mul (js_sub 1 (js_div (js_sub 140000 110000) 125000)) 100)) 60 95"
proof -
  have ci: "confidenceInterval example_result =
      Some \<lparr>lower = Some 110000, upper = Some 140000\<rparr>"
    by (simp add: example_result_def bare_result_def)
  have sal: "predictedSalary example_result = Some 125000"
    by (simp add: example_result_def bare_result_def)
  have lo: "lower \<lparr>lower = Some 110000, upper = Some 140000\<rparr> = Some (110000 :: rat)"
    and up: "upper \<lparr>lower = Some 110000, upper = Some 140000\<rparr> = Some (140000 :: rat)"
    and nz: "(110000 :: rat) \<noteq> 0" "(140000 :: rat) \<noteq> 0" "(125000 :: rat) \<noteq> 0"
    by simp_all
  have exact: "to_double 110000 = 110000" "to_double 140000 = 140000"
    "to_double 125000 = 125000"
    by code_simp+
  have dbl: "is_double 110000" "is_double 140000" "is_double 125000"
    by (rule is_doubleI, rule exact, simp)+
  have bnd: "\<bar>110000 :: rat\<bar> \<le> 2 ^ 500" "\<bar>140000 :: rat\<bar> \<le> 2 ^ 500"
    "1 / 2 ^ 500 \<le> \<bar>125000 :: rat\<bar>"
    by simp_all
  from predictionPrecision_formula
         [OF ci lo up nz(1) nz(2) sal nz(3) dbl(1) dbl(2) dbl(3) bnd(1) bnd(2) bnd(3)]
       ci sal dbl
  show ?thesis by blast
qed

theorem predictionPrecision_zero_bound_counterexample:
  "confidenceInterval zero_lower_result = Some \<lparr>lower = Some 0, upper = Some 45000\<rparr>
   \<and> predictedSalary zero_lower_result = Some 20000
   \<and> margin (predictionPrecision zero_lower_result) = None
   \<and> displayed_margin zero_lower_result = 0
   \<and> js_round ((45000 - 0) / 2) = 22500
   \<and> percentage (predictionPrecision zero_lower_result) = 85
   \<and> clamp (js_round ((1 - (45000 - 0) / 20000) * 100)) 60 95 = 60"
  by code_simp




subsection \<open>Response handling of the prediction page\<close>

lemma not_ok_throws: "\<not> ok r \<Longrightarrow> \<exists>m. interpret_response r = Inl m"
  by (simp add: interpret_response_def split: sum.splits)

lemma not_ok_message:
  "\<not> ok r \<Longrightarrow> text_body r = Inr t \<Longrightarrow>
     interpret_response r =
       Inl (''Backend error: '' @ show_nat (status r) @ '' '' @ statusText r)"
  by (simp add: interpret_response_def)

lemma non_json_message:
  "ok r \<Longrightarrow> \<not> json_content_type r \<Longrightarrow> text_body r = Inr t \<Longrightarrow>
     interpret_response r = Inl ''Backend returned non-JSON response''"
  by (auto simp: interpret_response_def json_content_type_def non_json_response_def
      str_includes_def split: option.splits)

lemma non_json_no_parse:
  "ok r \<Longrightarrow> \<not> json_content_type r \<Longrightarrow>
     interpret_response (r\<lparr>json_body := j\<rparr>) = interpret_response r"
  by (auto simp: interpret_response_def json_content_type_def non_json_response_def
      str_includes_def split: option.splits)

lemma json_branch:
  assumes "ok r" and "json_content_type r" and "json_body r = Inr body" and "body \<noteq> JNull"
  shows "interpret_response r =
     (if get_prop body ''status'' = Some (JStr ''success'') \<and>
         (case get_prop body ''data'' of None \<Rightarrow> False | Some d \<Rightarrow> truthy d)
      then (case get_prop body ''data'' of Some d \<Rightarrow> Inr d | None \<Rightarrow> Inr body)
      else if get_prop body ''status'' = Some (JStr ''error'')
      then Inl (js_String (or_else (get_prop body ''message'') ''Prediction failed''))
      else Inr body)"
proof -
  from assms(2) obtain c
    where c: "content_type r = Some c" "str_includes c ''application/json''"
    by (auto simp: json_content_type_def split: option.splits)
  then have ne: "c \<noteq> []" by (auto simp: str_includes_def)
  from assms(1,3,4) c ne show ?thesis
    by (cases body) (auto simp: interpret_response_def split: option.splits)
qed

lemma handlePrediction_prediction:
  "prediction (handlePrediction (Inr r) st) =
     (case interpret_response r of Inr v \<Rightarrow> Some v | Inl m \<Rightarrow> prediction st)"
  by (simp add: handlePrediction_def Let_def split: sum.splits)

lemma handlePrediction_error:
  "error (handlePrediction (Inr r) st) =
     (case interpret_response r of Inr v \<Rightarrow> None | Inl m \<Rightarrow> Some (shown_error m))"
  by (simp add: handlePrediction_def Let_def split: sum.splits)

lemma not_ok_keeps_prediction:
  "\<not> ok r \<Longrightarrow> prediction (handlePrediction (Inr r) st) = prediction st"
  using not_ok_throws [of r] by (auto simp: handlePrediction_prediction)

lemma non_json_handling:
  assumes "ok r" and "\<not> json_content_type r" and "text_body r = Inr t"
  shows "interpret_response r = Inl ''Backend returned non-JSON response''"
    and "interpret_response (r\<lparr>json_body := j\<rparr>) = Inl ''Backend returned non-JSON response''"
    and "prediction (handlePrediction (Inr r) st) = prediction st"
  using assms non_json_message [OF assms] non_json_no_parse [OF assms(1,2), of j]
  by (simp_all add: handlePrediction_prediction)

lemma transport_error_distinct:
  "''Backend returned non-JSON response'' \<noteq> ''Backend error: '' @ x"
  by simp

lemma success_payload:
  assumes "ok r" and "json_content_type r" and "json_body r = Inr body" and "body \<noteq> JNull"
    and "get_prop body ''status'' = Some (JStr ''success'')"
    and "get_prop body ''data'' = Some d" and "truthy d"
  shows "interpret_response r = Inr d"
    and "prediction (handlePrediction (Inr r) st) = Some d"
  using assms(5-7) json_branch [OF assms(1-4)]
  by (simp_all add: handlePrediction_prediction)

lemma error_status:
  assumes "ok r" and "json_content_type r" and "json_body r = Inr body" and "body \<noteq> JNull"
    and "get_prop body ''status'' = Some (JStr ''error'')"
  shows "interpret_response r =
           Inl (js_String (or_else (get_prop body ''message'') ''Prediction failed''))"
    and "prediction (handlePrediction (Inr r) st) = prediction st"
    and "get_prop body ''message'' = Some (JStr m) \<Longrightarrow> m \<noteq> [] \<Longrightarrow> interpret_response r = Inl m"
  using assms(5) json_branch [OF assms(1-4)]
  by (simp_all add: handlePrediction_prediction or_else_def)

lemma other_status:
  assumes "ok r" and "json_content_type r" and "json_body r = Inr body" and "body \<noteq> JNull"
    and "get_prop body ''status'' \<noteq> Some (JStr ''success'')"
    and "get_prop body ''status'' \<noteq> Some (JStr ''error'')"
  shows "interpret_response r = Inr body"
    and "prediction (handlePrediction (Inr r) st) = Some body"
  using assms(5,6) json_branch [OF assms(1-4)]
  by (simp_all add: handlePrediction_prediction)

text \<open>
  C7, as the code has it. A response is handled in this order. A non-success HTTP status
  throws an error whose message is made of the status code and status text (the body the
  service sent is read but does not enter the message), and no prediction is set.
  Otherwise a content type that does not mention application/json throws the distinct
  error "Backend returned non-JSON response", whatever the JSON reader would give.
  Otherwise, for a body other than \<open>null\<close>: status "success" with a truthy data payload
  sets that payload as the prediction; status "error" throws the provided message (or
  "Prediction failed") and sets no prediction; any other or no status sets the body
  itself as the prediction. The error shown is derived from the thrown message.
\<close>

theorem handlePrediction_ordered_handling:
  "(\<not> ok r \<longrightarrow>
      (\<exists>m. interpret_response r = Inl m) \<and>
      prediction (handlePrediction (Inr r) st) = prediction st)
   \<and> (\<not> ok r \<and> text_body r = Inr t \<longrightarrow>
        interpret_response r =
          Inl (''Backend error: '' @ show_nat (status r) @ '' '' @ statusText r))
   \<and> (ok r \<and> \<not> json_content_type r \<and> text_body r = Inr t \<longrightarrow>
        interpret_response r = Inl ''Backend returned non-JSON response'' \<and>
        interpret_response (r\<lparr>json_body := j\<rparr>) = Inl ''Backend returned non-JSON response'' \<and>
        prediction (handlePrediction (Inr r) st) = prediction st)
   \<and> ''Backend returned non-JSON response'' \<noteq>
        ''Backend error: '' @ show_nat (status r) @ '' '' @ statusText r
   \<and> (ok r \<and> json_content_type r \<and> json_body r = Inr body \<and> body \<noteq> JNull \<longrightarrow>
        (get_prop body ''status'' = Some (JStr ''success'') \<and>
         get_prop body ''data'' = Some d \<and> truthy d \<longrightarrow>
           interpret_response r = Inr d \<and>
           prediction (handlePrediction (Inr r) st) = Some d)
        \<and> (get_prop body ''status'' = Some (JStr ''error'') \<longrightarrow>
             interpret_response r =
               Inl (js_String (or_else (get_prop body ''message'') ''Prediction failed'')) \<and>
             prediction (handlePrediction (Inr r) st) = prediction st)
        \<and> (get_prop body ''status'' = Some (JStr ''error'') \<and>
            get_prop body ''message'' = Some (JStr m) \<and> m \<noteq> [] \<longrightarrow>
             interpret_response r = Inl m)
        \<and> (get_prop body ''status'' \<noteq> Some (JStr ''success'') \<and>
            get_prop body ''status'' \<noteq> Some (JStr ''error'') \<longrightarrow>
             interpret_response r = Inr body \<and>
             prediction (handlePrediction (Inr r) st) = Some body))
   \<and> error (handlePrediction (Inr r) st) =
        (case interpret_response r of Inr v \<Rightarrow> None | Inl m \<Rightarrow> Some (shown_error m))"
proof (intro conjI impI; (elim conjE)?)
  show "''Backend returned non-JSON response'' \<noteq>
        ''Backend error: '' @ show_nat (status r) @ '' '' @ statusText r"
    by (rule transport_error_distinct)
  show "error (handlePrediction (Inr r) st) =
        (case interpret_response r of Inr v \<Rightarrow> None | Inl m \<Rightarrow> Some (shown_error m))"
    by (rule handlePrediction_error)
qed (auto simp: not_ok_message
      intro: not_ok_throws not_ok_keeps_prediction non_json_handling
        success_payload error_status other_status)

theorem handlePrediction_ordered_handling_witness:
  "ok success_response \<and> json_content_type success_response
   \<and> prediction (handlePrediction (Inr success_response) idle_page)
       = Some (JObj [(''predictedSalary'', JOther True ''125000'')])
   \<and> error (handlePrediction (Inr success_response) idle_page) = None"
proof -
  let ?d = "JObj [(''predictedSalary'', JOther True ''125000'')]"
  let ?body = "JObj [(''status'', JStr ''success''), (''data'', ?d)]"
  have ok: "ok success_response" by (simp add: success_response_def)
  have ct: "json_content_type success_response" by code_simp
  have jb: "json_body success_response = Inr ?body" by (simp add: success_response_def)
  have st: "get_prop ?body ''status'' = Some (JStr ''success'')" by simp
  have da: "get_prop ?body ''data'' = Some ?d" by simp
  from handlePrediction_ordered_handling
         [of success_response idle_page _ _ ?body ?d] ok ct jb st da
  show ?thesis by simp
qed

theorem handlePrediction_service_message_counterexample:
  "\<not> ok bad_request_response
   \<and> json_body bad_request_response =
       Inr (JObj [(''status'', JStr ''error''), (''message'', JStr ''Invalid job title'')])
   \<and> interpret_response bad_request_response = Inl ''Backend error: 400 Bad Request''
   \<and> error (handlePrediction (Inr bad_request_response) idle_page)
       = Some ''Prediction failed: Backend error: 400 Bad Request''
   \<and> \<not> str_includes ''Prediction failed: Backend error: 400 Bad Request'' ''Invalid job title''"
  by code_simp

subsection \<open>Data sufficiency\<close>

text \<open>
  C8. For every \<open>filteredRecords \<ge> 0\<close> exactly one of the three states holds: no-data when
  the count is 0, insufficient-data when it lies strictly between 0 and 10, sufficient-data
  from 10 on; the overview tab renders the matching state, so 9 records give the
  insufficient-data state and 10 records the full chart set.
\<close>

theorem data_sufficiency_trichotomy:
  assumes "filteredRecords d \<ge> 0"
  shows "(hasNoData (Some d) \<longleftrightarrow> filteredRecords d = 0)
       \<and> (hasInsufficientData (Some d) \<longleftrightarrow> 0 < filteredRecords d \<and> filteredRecords d < 10)
       \<and> (hasMinimumData (Some d) \<longleftrightarrow> filteredRecords d \<ge> 10)
       \<and> (hasNoData (Some d) \<or> hasInsufficientData (Some d) \<or> hasMinimumData (Some d))
       \<and> \<not> (hasNoData (Some d) \<and> hasInsufficientData (Some d))
       \<and> \<not> (hasNoData (Some d) \<and> hasMinimumData (Some d))
       \<and> \<not> (hasInsufficientData (Some d) \<and> hasMinimumData (Some d))
       \<and> OverviewTab (Some d) =
           (if filteredRecords d = 0 then EmptyDataState_no_data
            else if filteredRecords d < 10 then EmptyDataState_insufficient_data (filteredRecords d)
            else Full_Charts True)
       \<and> OverviewTab (Some (d\<lparr>filteredRecords := 9\<rparr>)) = EmptyDataState_insufficient_data 9
       \<and> OverviewTab (Some (d\<lparr>filteredRecords := 10\<rparr>)) = Full_Charts True"
  using assms
  unfolding hasNoData_def hasInsufficientData_def hasMinimumData_def OverviewTab_def
  by auto

theorem data_sufficiency_trichotomy_witness:
  "filteredRecords \<lparr>totalRecords = 15000, filteredRecords = 9\<rparr> \<ge> 0
   \<and> hasInsufficientData (Some \<lparr>totalRecords = 15000, filteredRecords = 9\<rparr>)
   \<and> \<not> hasMinimumData (Some \<lparr>totalRecords = 15000, filteredRecords = 9\<rparr>)
   \<and> OverviewTab (Some \<lparr>totalRecords = 15000, filteredRecords = 9\<rparr>)
       = EmptyDataState_insufficient_data 9"
proof -
  have h: "filteredRecords \<lparr>totalRecords = 15000, filteredRecords = 9\<rparr> \<ge> 0" by simp
  from data_sufficiency_trichotomy [OF h] show ?thesis by simp
qed

end
